theory Spec2Isabelle
  imports Complex_Main "HOL-Library.Sublist"
begin

section \<open>JavaScript values reaching the mock API\<close>

text \<open>
  The dispatch loop calls the fixtures through \<^verbatim>\<open>(mockApi as any)[name](...Object.values(args))\<close>,
  so a fixture receives whatever value the argument record holds, and \<^verbatim>\<open>undefined\<close> for a
  missing position. The argument record comes from the model's reply, so its values are
  those of JSON: null, booleans, numbers, strings, arrays and plain objects (kept as their
  own properties in enumeration order). Strings are kept as their UTF-8 bytes.
\<close>

text \<open>
  A number: a finite double, given by its value, or one of the three others. The negative
  zero is not told from zero, for nothing here does.
\<close>

datatype jsnum = Finite rat | PosInfinity | NegInfinity | NaN

datatype jsval =
    JUndefined
  | JNull
  | JBool bool
  | JNum jsnum
  | JStr string
  | JArr "jsval list"
  | JObj "(string \<times> jsval) list"

text \<open>The value of \<^verbatim>\<open>ToIntegerOrInfinity\<close>.\<close>

datatype ext_int = NegInf | Fin int | PosInf

text \<open>An exception: the thrown \<^verbatim>\<open>Error\<close> object, with its \<^verbatim>\<open>message\<close>.\<close>

datatype js_error = Error (message: string)

text \<open>
  What a call through \<^verbatim>\<open>mockApi[name]\<close> returns: a value as above, or another object of the
  host (a function, a wrapper, \<^verbatim>\<open>mockApi\<close> itself), which only a member inherited from
  \<^verbatim>\<open>Object.prototype\<close> can return.
\<close>

datatype js_result = Value jsval | HostObject

text \<open>The characters that \<^verbatim>\<open>Number::toString\<close> writes a finite number with.\<close>

datatype num_char = Digit nat | Point | Minus | Plus | Exponent

text \<open>
  The built-ins of the host that the program reaches and that are not code of the repository:
  \<^item> \<^verbatim>\<open>StringToNumber\<close>, which \<^verbatim>\<open>Array.prototype.slice\<close> applies to a string given as its end;
  \<^item> \<^verbatim>\<open>Number::toString\<close> on a finite number that is no safe integer (the shortest digits
    that read back as the same double);
  \<^item> the call of a member that \<^verbatim>\<open>mockApi\<close> inherits from \<^verbatim>\<open>Object.prototype\<close>, on \<^verbatim>\<open>mockApi\<close> and
    the given arguments;
  \<^item> the \<^verbatim>\<open>TypeError\<close> that \<^verbatim>\<open>OrdinaryToPrimitive\<close> throws, and the one that \<^verbatim>\<open>Object.values\<close>
    throws on \<^verbatim>\<open>undefined\<close>, whose messages are the engine's.
\<close>

record host =
  string_to_number :: "string \<Rightarrow> jsnum"
  number_text :: "rat \<Rightarrow> num_char list"
  proto_call :: "string \<Rightarrow> jsval list \<Rightarrow> js_error + js_result"
  to_primitive_error :: js_error
  values_error :: js_error

definition newline :: char where
  "newline = CHR 0x0A"

definition digit_char :: "nat \<Rightarrow> char" where
  "digit_char n = ''0123456789'' ! n"

fun string_of_nat :: "nat \<Rightarrow> string" where
  "string_of_nat n =
     (if n < 10 then [digit_char n]
      else string_of_nat (n div 10) @ [digit_char (n mod 10)])"

declare string_of_nat.simps [simp del]

text \<open>An integer in plain decimal digits.\<close>

definition integer_digits :: "int \<Rightarrow> string" where
  "integer_digits n =
     (if n < 0 then ''-'' @ string_of_nat (nat (- n)) else string_of_nat (nat n))"

fun num_char_text :: "num_char \<Rightarrow> char" where
  "num_char_text (Digit d) = digit_char (d mod 10)"
| "num_char_text Point = CHR ''.''"
| "num_char_text Minus = CHR ''-''"
| "num_char_text Plus = CHR ''+''"
| "num_char_text Exponent = CHR ''e''"

text \<open>An integer of absolute value at most \<open>2\<^sup>5\<^sup>3\<close>: every one is a double.\<close>

definition safe_integer :: "rat \<Rightarrow> bool" where
  "safe_integer x = (of_int \<lfloor>x\<rfloor> = x \<and> \<bar>x\<bar> \<le> 2 ^ 53)"

text \<open>
  \<^verbatim>\<open>Number::toString\<close>. A safe integer is written with all its digits; the digits of another
  finite number are the host's.
\<close>

definition number_to_string :: "host \<Rightarrow> jsnum \<Rightarrow> string" where
  "number_to_string h n =
     (case n of
        Finite x \<Rightarrow>
          if safe_integer x then integer_digits \<lfloor>x\<rfloor> else map num_char_text (number_text h x)
      | PosInfinity \<Rightarrow> ''Infinity''
      | NegInfinity \<Rightarrow> ''-Infinity''
      | NaN \<Rightarrow> ''NaN'')"

text \<open>\<^verbatim>\<open>Array.prototype.join\<close> with a separator.\<close>

fun join :: "string \<Rightarrow> string list \<Rightarrow> string" where
  "join sep [] = []"
| "join sep [x] = x"
| "join sep (x # y # ys) = x @ sep @ join sep (y # ys)"

text \<open>
  \<^verbatim>\<open>ToString\<close>, as a template literal applies it to an interpolated value. An array is joined
  with commas, its \<^verbatim>\<open>null\<close> and \<^verbatim>\<open>undefined\<close> elements left empty. A plain object is
  \<^verbatim>\<open>[object Object]\<close> by the inherited \<^verbatim>\<open>toString\<close>; with a property \<^verbatim>\<open>toString\<close> of its own, which
  no JSON value makes callable, no method gives a primitive and the conversion throws.
\<close>

fun to_string :: "host \<Rightarrow> jsval \<Rightarrow> js_error + string"
  and element_strings :: "host \<Rightarrow> jsval list \<Rightarrow> js_error + string list" where
  "to_string h JUndefined = Inr ''undefined''"
| "to_string h JNull = Inr ''null''"
| "to_string h (JBool b) = Inr (if b then ''true'' else ''false'')"
| "to_string h (JNum n) = Inr (number_to_string h n)"
| "to_string h (JStr s) = Inr s"
| "to_string h (JArr xs) =
     (case element_strings h xs of Inl e \<Rightarrow> Inl e | Inr ss \<Rightarrow> Inr (join '','' ss))"
| "to_string h (JObj ps) =
     (if ''toString'' \<in> set (map fst ps) then Inl (to_primitive_error h)
      else Inr ''[object Object]'')"
| "element_strings h [] = Inr []"
| "element_strings h (x # xs) =
     (case (if x = JUndefined \<or> x = JNull then Inr [] else to_string h x) of
        Inl e \<Rightarrow> Inl e
      | Inr s \<Rightarrow> (case element_strings h xs of Inl e \<Rightarrow> Inl e | Inr ss \<Rightarrow> Inr (s # ss)))"

text \<open>
  \<^verbatim>\<open>ToNumber\<close>. An array or an object is first made a primitive, which is the string above
  (the inherited \<^verbatim>\<open>valueOf\<close> returns the object itself) or throws as above.
\<close>

definition to_number :: "host \<Rightarrow> jsval \<Rightarrow> js_error + jsnum" where
  "to_number h v =
     (case v of
        JUndefined \<Rightarrow> Inr NaN
      | JNull \<Rightarrow> Inr (Finite 0)
      | JBool b \<Rightarrow> Inr (Finite (if b then 1 else 0))
      | JNum n \<Rightarrow> Inr n
      | JStr s \<Rightarrow> Inr (string_to_number h s)
      | JArr xs \<Rightarrow>
          (case to_string h v of Inl e \<Rightarrow> Inl e | Inr s \<Rightarrow> Inr (string_to_number h s))
      | JObj ps \<Rightarrow>
          (case to_string h v of Inl e \<Rightarrow> Inl e | Inr s \<Rightarrow> Inr (string_to_number h s)))"

definition to_integer_or_infinity :: "jsnum \<Rightarrow> ext_int" where
  "to_integer_or_infinity n =
     (case n of
        Finite x \<Rightarrow> Fin (if x < 0 then - \<lfloor>- x\<rfloor> else \<lfloor>x\<rfloor>)
      | PosInfinity \<Rightarrow> PosInf
      | NegInfinity \<Rightarrow> NegInf
      | NaN \<Rightarrow> Fin 0)"

text \<open>
  \<^verbatim>\<open>xs.slice(0, end)\<close>: an undefined end is the length, a negative end counts from the back,
  and the end is clamped to the length.
\<close>

definition slice_end :: "host \<Rightarrow> nat \<Rightarrow> jsval \<Rightarrow> js_error + nat" where
  "slice_end h len e =
     (if e = JUndefined then Inr len
      else case to_number h e of
             Inl err \<Rightarrow> Inl err
           | Inr n \<Rightarrow>
               Inr (case to_integer_or_infinity n of
                      NegInf \<Rightarrow> 0
                    | Fin r \<Rightarrow>
                        (if r < 0 then nat (max (int len + r) 0) else nat (min r (int len)))
                    | PosInf \<Rightarrow> len))"

definition slice0 :: "host \<Rightarrow> 'a list \<Rightarrow> jsval \<Rightarrow> js_error + 'a list" where
  "slice0 h xs e =
     (case slice_end h (length xs) e of Inl err \<Rightarrow> Inl err | Inr k \<Rightarrow> Inr (take k xs))"

section \<open>The page\<close>

datatype css_class = UserMessage | ModelMessage

text \<open>
  A child of the chat history: a message \<^verbatim>\<open>div\<close> with its class and the content given to
  \<^verbatim>\<open>appendMessage\<close> (the markup put around it is a function of these two), or the spinner.
\<close>

datatype node = Message css_class string | Spinner

text \<open>The record held by \<^verbatim>\<open>actionToConfirm\<close>.\<close>

record action =
  atype :: string
  packageId :: jsval
  nodeId :: jsval

record ui =
  chat_history :: "node list"
  loading_element :: bool
  input_value :: string
  input_disabled :: bool
  submit_disabled :: bool
  input_focused :: bool
  modal_hidden :: bool
  overlay_hidden :: bool
  modal_body :: string
  action_to_confirm :: "action option"
  console_errors :: "js_error list"

section \<open>The mock API\<close>

definition known_node :: string where
  "known_node = ''ana-agi-node-1''"

definition getNodeStatus :: "host \<Rightarrow> jsval \<Rightarrow> js_error + string" where
  "getNodeStatus h nodeId' =
     (if nodeId' = JStr known_node then
        Inr (''Status for node '' @ known_node @ '':'' @ [newline]
             @ ''- Status: '' @ ''Active'' @ [newline]
             @ ''- Version: '' @ ''2.0.0 G-Sync'' @ [newline]
             @ ''- CPU Load: '' @ ''12'' @ ''%'')
      else
        (case to_string h nodeId' of
           Inl e \<Rightarrow> Inl e
         | Inr s \<Rightarrow> Inr (''Error fetching status for '' @ s @ '': Node not found.'')))"

text \<open>
  A log entry. The timestamp is the ISO rendering of the instant \<open>age_ms\<close> milliseconds before
  the call; the entry keeps the offset, and nothing reads the field.
\<close>

record log_entry =
  age_ms :: nat
  level :: string
  msg :: string

definition logs :: "log_entry list" where
  \<open>logs =
     [\<lparr>age_ms = 10000, level = ''INFO'', msg = ''System compliance check passed.''\<rparr>,
      \<lparr>age_ms = 30000, level = ''ERROR'', msg = ''Connection to database failed.''\<rparr>,
      \<lparr>age_ms = 60000, level = ''INFO'',
        msg = ''Deployment of package 1.9.9 started on ana-agi-node-1.''\<rparr>,
      \<lparr>age_ms = 120000, level = ''WARN'', msg = ''High CPU usage detected on node-2.''\<rparr>,
      \<lparr>age_ms = 300000, level = ''INFO'', msg = ''User "admin" logged in.''\<rparr>]\<close>

definition format_log :: "log_entry \<Rightarrow> string" where
  "format_log entry = ''- ['' @ level entry @ ''] '' @ msg entry"

definition logs_header :: "string \<Rightarrow> string" where
  "logs_header limit_text = ''Last '' @ limit_text @ '' logs from the Vault:''"

definition getLatestVaultLogs :: "host \<Rightarrow> jsval \<Rightarrow> js_error + string" where
  "getLatestVaultLogs h limit =
     (case slice0 h logs limit of
        Inl e \<Rightarrow> Inl e
      | Inr response \<Rightarrow>
          (let formattedLogs = join [newline] (map format_log response) in
           case to_string h limit of
             Inl e \<Rightarrow> Inl e
           | Inr limit_text \<Rightarrow> Inr (logs_header limit_text @ [newline] @ formattedLogs)))"

definition getSystemComplianceScore :: string where
  "getSystemComplianceScore = ''Current system compliance score is: '' @ ''98.5'' @ ''%''"

text \<open>
  \<^verbatim>\<open>startDeployment\<close> stages the action first; the text of the dialog is made next, and if
  that throws the dialog stays as it was.
\<close>

definition dialog_text :: "string \<Rightarrow> string \<Rightarrow> string" where
  "dialog_text package_text node_text =
     ''<p>Are you sure you want to deploy package <strong>'' @ package_text
     @ ''</strong> to node <strong>'' @ node_text
     @ ''</strong>?</p><p>This action will change the state of the system.</p>''"

definition startDeployment :: "host \<Rightarrow> jsval \<Rightarrow> jsval \<Rightarrow> ui \<Rightarrow> (js_error + string) \<times> ui" where
  "startDeployment h packageId' nodeId' u =
     (let u1 = u\<lparr>action_to_confirm :=
                  Some \<lparr>atype = ''DEPLOYMENT'', packageId = packageId', nodeId = nodeId'\<rparr>\<rparr>
      in case to_string h packageId' of
           Inl e \<Rightarrow> (Inl e, u1)
         | Inr package_text \<Rightarrow>
             (case to_string h nodeId' of
                Inl e \<Rightarrow> (Inl e, u1)
              | Inr node_text \<Rightarrow>
                  (Inr ''Please confirm the deployment in the dialog box.'',
                   u1\<lparr>modal_body := dialog_text package_text node_text,
                      modal_hidden := False,
                      overlay_hidden := False\<rparr>)))"

section \<open>Page operations\<close>

definition appendMessage :: "string \<Rightarrow> css_class \<Rightarrow> ui \<Rightarrow> ui" where
  "appendMessage content cssClass u =
     u\<lparr>chat_history := chat_history u @ [Message cssClass content]\<rparr>"

definition loading_show :: "ui \<Rightarrow> ui" where
  "loading_show u =
     (if \<not> loading_element u
      then u\<lparr>loading_element := True, chat_history := chat_history u @ [Spinner]\<rparr>
      else u)"

definition loading_hide :: "ui \<Rightarrow> ui" where
  "loading_hide u =
     (if loading_element u
      then u\<lparr>chat_history := remove1 Spinner (chat_history u), loading_element := False\<rparr>
      else u)"










section \<open>The chat session and the dispatch loop\<close>

text \<open>
  A requested call. The interface makes both its name and its argument record optional; the
  record is kept as its properties in enumeration order.
\<close>

record function_call =
  name :: "string option"
  args :: "(string \<times> jsval) list option"

text \<open>An entry \<^verbatim>\<open>{ name, response: { result } }\<close>.\<close>

datatype function_response = FunctionResponse string js_result

text \<open>A response: its \<^verbatim>\<open>text\<close> and its \<^verbatim>\<open>functionCalls\<close>, each of which may be undefined.\<close>

record response =
  text_part :: "string option"
  functionCalls :: "function_call list option"

text \<open>
  What \<^verbatim>\<open>sendMessage\<close> is given: the user's text, or a batch of parts, one
  \<^verbatim>\<open>{ functionResponse }\<close> for each entry that was pushed.
\<close>

datatype message = UserText string | FunctionResponses "function_response list"

text \<open>
  \<^verbatim>\<open>chat.sendMessage\<close>: the session \<open>'c\<close> moves on with every send, and a send either throws or
  gives a response.
\<close>

type_synonym 'c sender = "'c \<Rightarrow> message \<Rightarrow> (js_error + response) \<times> 'c"

definition mockApi_keys :: "string list" where
  "mockApi_keys =
     [''getNodeStatus'', ''getLatestVaultLogs'', ''getSystemComplianceScore'', ''startDeployment'']"

text \<open>The properties of \<^verbatim>\<open>Object.prototype\<close>, which every object literal inherits.\<close>

definition object_prototype_keys :: "string list" where
  "object_prototype_keys =
     [''constructor'', ''__defineGetter__'', ''__defineSetter__'', ''hasOwnProperty'',
      ''__lookupGetter__'', ''__lookupSetter__'', ''isPrototypeOf'', ''propertyIsEnumerable'',
      ''toString'', ''valueOf'', ''__proto__'', ''toLocaleString'']"

text \<open>\<^verbatim>\<open>name in mockApi\<close>: the operator looks through the prototype chain.\<close>

definition in_mockApi :: "string \<Rightarrow> bool" where
  "in_mockApi n = (n \<in> set mockApi_keys \<or> n \<in> set object_prototype_keys)"

text \<open>\<^verbatim>\<open>Object.values(args)\<close>, the record being kept in its enumeration order.\<close>

definition object_values :: "(string \<times> jsval) list \<Rightarrow> jsval list" where
  "object_values r = map snd r"

text \<open>The value bound to the \<open>i\<close>-th parameter by a spread call.\<close>

definition param :: "nat \<Rightarrow> jsval list \<Rightarrow> jsval" where
  "param i vs = (if i < length vs then vs ! i else JUndefined)"

text \<open>\<^verbatim>\<open>mockApi[name](...values)\<close>, for a name that passed the \<^verbatim>\<open>in\<close> test.\<close>

definition call_member ::
  "host \<Rightarrow> string \<Rightarrow> jsval list \<Rightarrow> ui \<Rightarrow> (js_error + js_result) \<times> ui" where
  "call_member h n vs u =
     (if n = ''getNodeStatus'' then
        (case getNodeStatus h (param 0 vs) of
           Inl e \<Rightarrow> (Inl e, u)
         | Inr r \<Rightarrow> (Inr (Value (JStr r)), u))
      else if n = ''getLatestVaultLogs'' then
        (case getLatestVaultLogs h (param 0 vs) of
           Inl e \<Rightarrow> (Inl e, u)
         | Inr r \<Rightarrow> (Inr (Value (JStr r)), u))
      else if n = ''getSystemComplianceScore''
        then (Inr (Value (JStr getSystemComplianceScore)), u)
      else if n = ''startDeployment'' then
        (case startDeployment h (param 0 vs) (param 1 vs) u of
           (Inl e, u') \<Rightarrow> (Inl e, u')
         | (Inr r, u') \<Rightarrow> (Inr (Value (JStr r)), u'))
      else (proto_call h n vs, u))"

text \<open>
  The \<^verbatim>\<open>for\<close> loop over the requested calls, with the responses pushed so far. An undefined
  name is the key \<^verbatim>\<open>undefined\<close>, which \<^verbatim>\<open>mockApi\<close> does not have. The arguments of the call are
  evaluated before the call, so that an undefined argument record makes \<^verbatim>\<open>Object.values\<close>
  throw whatever the member is.
\<close>

fun dispatch_calls ::
  "host \<Rightarrow> function_call list \<Rightarrow> function_response list \<Rightarrow> ui
    \<Rightarrow> (js_error + function_response list) \<times> ui" where
  "dispatch_calls h [] functionResponses u = (Inr functionResponses, u)"
| "dispatch_calls h (funcCall # rest) functionResponses u =
     (case name funcCall of
        None \<Rightarrow> dispatch_calls h rest functionResponses u
      | Some n \<Rightarrow>
          if in_mockApi n then
            (case args funcCall of
               None \<Rightarrow> (Inl (values_error h), u)
             | Some r \<Rightarrow>
                 (case call_member h n (object_values r) u of
                    (Inl e, u') \<Rightarrow> (Inl e, u')
                  | (Inr result, u') \<Rightarrow>
                      dispatch_calls h rest
                        (functionResponses @ [FunctionResponse n result]) u'))
          else dispatch_calls h rest functionResponses u)"

text \<open>
  The \<^verbatim>\<open>while\<close> loop. It ends with the response that asks for no call, or with the exception
  that a call or a send threw; a session that asks for calls forever gives \<open>None\<close>.
\<close>

partial_function (option) dispatch_loop ::
  "host \<Rightarrow> 'c sender \<Rightarrow> 'c \<Rightarrow> response \<Rightarrow> ui \<Rightarrow> ((js_error + response) \<times> 'c \<times> ui) option" where
  "dispatch_loop h send c r u =
     (case functionCalls r of
        None \<Rightarrow> Some (Inr r, c, u)
      | Some calls \<Rightarrow>
          if calls = [] then Some (Inr r, c, u)
          else
            (case dispatch_calls h calls [] u of
               (Inl e, u') \<Rightarrow> Some (Inl e, c, u')
             | (Inr functionResponses, u') \<Rightarrow>
                 (case send c (FunctionResponses functionResponses) of
                    (Inl e, c') \<Rightarrow> Some (Inl e, c', u')
                  | (Inr r', c') \<Rightarrow> dispatch_loop h send c' r' u')))"

text \<open>The body of the \<^verbatim>\<open>try\<close> block up to the end of the loop.\<close>

definition send_cycle ::
  "host \<Rightarrow> 'c sender \<Rightarrow> 'c \<Rightarrow> string \<Rightarrow> ui \<Rightarrow> ((js_error + response) \<times> 'c \<times> ui) option" where
  "send_cycle h send c userMessage u =
     (case send c (UserText userMessage) of
        (Inl e, c') \<Rightarrow> Some (Inl e, c', u)
      | (Inr r, c') \<Rightarrow> dispatch_loop h send c' r u)"

definition on_reply :: "response \<Rightarrow> ui \<Rightarrow> ui" where
  "on_reply r u =
     (let u' = loading_hide u in
      case text_part r of
        None \<Rightarrow> u'
      | Some t \<Rightarrow> if t \<noteq> [] then appendMessage t ModelMessage u' else u')"

definition on_error :: "js_error \<Rightarrow> ui \<Rightarrow> ui" where
  "on_error e u =
     appendMessage (''Error: '' @ message e) ModelMessage
       (loading_hide (u\<lparr>console_errors := console_errors u @ [e]\<rparr>))"

definition finally_block :: "ui \<Rightarrow> ui" where
  "finally_block u = u\<lparr>input_disabled := False, submit_disabled := False, input_focused := True\<rparr>"

text \<open>
  The white space and the line terminators of the language, each as its UTF-8 bytes: tab,
  line feed, vertical tab, form feed, carriage return, space, U+00A0, U+1680, U+2000 to
  U+200A, U+2028, U+2029, U+202F, U+205F, U+3000 and U+FEFF.
\<close>

definition white_space :: "string list" where
  "white_space =
     [[CHR 0x09], [CHR 0x0A], [CHR 0x0B], [CHR 0x0C], [CHR 0x0D], [CHR 0x20],
      [CHR 0xC2, CHR 0xA0],
      [CHR 0xE1, CHR 0x9A, CHR 0x80],
      [CHR 0xE2, CHR 0x80, CHR 0x80], [CHR 0xE2, CHR 0x80, CHR 0x81],
      [CHR 0xE2, CHR 0x80, CHR 0x82], [CHR 0xE2, CHR 0x80, CHR 0x83],
      [CHR 0xE2, CHR 0x80, CHR 0x84], [CHR 0xE2, CHR 0x80, CHR 0x85],
      [CHR 0xE2, CHR 0x80, CHR 0x86], [CHR 0xE2, CHR 0x80, CHR 0x87],
      [CHR 0xE2, CHR 0x80, CHR 0x88], [CHR 0xE2, CHR 0x80, CHR 0x89],
      [CHR 0xE2, CHR 0x80, CHR 0x8A],
      [CHR 0xE2, CHR 0x80, CHR 0xA8], [CHR 0xE2, CHR 0x80, CHR 0xA9],
      [CHR 0xE2, CHR 0x80, CHR 0xAF],
      [CHR 0xE2, CHR 0x81, CHR 0x9F],
      [CHR 0xE3, CHR 0x80, CHR 0x80],
      [CHR 0xEF, CHR 0xBB, CHR 0xBF]]"

text \<open>The text without the sequences of the table that it begins with.\<close>

fun strip_start :: "string list \<Rightarrow> string \<Rightarrow> string" where
  "strip_start table [] = []"
| "strip_start table (c # cs) =
     (case find (\<lambda>w. prefix w (c # cs)) table of
        None \<Rightarrow> c # cs
      | Some w \<Rightarrow> strip_start table (drop (length w - 1) cs))"

text \<open>\<^verbatim>\<open>String.prototype.trim\<close>: the end is stripped on the reversed bytes.\<close>

definition trim :: "string \<Rightarrow> string" where
  "trim s = rev (strip_start (map rev white_space) (rev (strip_start white_space s)))"

text \<open>The statements between the test of the message and the \<^verbatim>\<open>try\<close> block.\<close>

definition before_try :: "string \<Rightarrow> ui \<Rightarrow> ui" where
  "before_try userMessage u =
     loading_show
       (appendMessage userMessage UserMessage
          (u\<lparr>input_value := [], input_disabled := True, submit_disabled := True\<rparr>))"

text \<open>
  The listener of the form's \<^verbatim>\<open>submit\<close> event. It is taken as running to its end: no other
  listener runs while a send is awaited.
\<close>

definition submit_handler :: "host \<Rightarrow> 'c sender \<Rightarrow> 'c \<Rightarrow> ui \<Rightarrow> ('c \<times> ui) option" where
  "submit_handler h send c u =
     (let userMessage = trim (input_value u) in
      if userMessage = [] then Some (c, u)
      else
        (case send_cycle h send c userMessage (before_try userMessage u) of
           None \<Rightarrow> None
         | Some (Inl e, c', u3) \<Rightarrow> Some (c', finally_block (on_error e u3))
         | Some (Inr r, c', u3) \<Rightarrow> Some (c', finally_block (on_reply r u3))))"

section \<open>Start-up\<close>






section \<open>Reading a fixture's output\<close>

text \<open>The lines of a text, split at every line feed.\<close>

fun lines_of :: "string \<Rightarrow> string list" where
  "lines_of [] = [[]]"
| "lines_of (x # xs) =
     (if x = newline then [] # lines_of xs
      else (case lines_of xs of l # ls \<Rightarrow> (x # l) # ls | [] \<Rightarrow> [[x]]))"

text \<open>The log entries of an output: the lines after the header line that are not empty.\<close>

definition entry_lines :: "string \<Rightarrow> string list" where
  "entry_lines out = filter (\<lambda>l. l \<noteq> []) (tl (lines_of out))"

definition bulleted :: "string \<Rightarrow> bool" where
  "bulleted l = prefix ''- '' l"

text \<open>The entries and the header line of what the log fixture returns, if it returns.\<close>

definition log_entries :: "host \<Rightarrow> jsval \<Rightarrow> string list option" where
  "log_entries h limit =
     (case getLatestVaultLogs h limit of Inl e \<Rightarrow> None | Inr out \<Rightarrow> Some (entry_lines out))"

definition log_header_line :: "host \<Rightarrow> jsval \<Rightarrow> string option" where
  "log_header_line h limit =
     (case getLatestVaultLogs h limit of Inl e \<Rightarrow> None | Inr out \<Rightarrow> Some (hd (lines_of out)))"

text \<open>
  The values that \<^verbatim>\<open>ToString\<close> converts without an exception: all but an object with a
  property \<^verbatim>\<open>toString\<close> of its own and the arrays that hold one.
\<close>

fun convertible :: "jsval \<Rightarrow> bool" where
  "convertible (JArr xs) = list_all convertible xs"
| "convertible (JObj ps) = (''toString'' \<notin> set (map fst ps))"
| "convertible v = True"

section \<open>Concrete inputs\<close>

text \<open>
  A host for the evaluations at concrete inputs. It reads every string as \<^verbatim>\<open>NaN\<close>, and it
  writes two and a half and \<open>10\<^sup>2\<^sup>1\<close> as the language does and no other number that is not
  a safe integer. The messages of its exceptions are one engine's wording.
\<close>

definition sample_number_text :: "rat \<Rightarrow> num_char list" where
  "sample_number_text x =
     (if x = 5 / 2 then [Digit 2, Point, Digit 5]
      else if x = 10 ^ 21 then [Digit 1, Exponent, Plus, Digit 2, Digit 1]
      else [])"

definition plain_host :: host where
  "plain_host =
     \<lparr>string_to_number = (\<lambda>s. NaN),
      number_text = sample_number_text,
      proto_call = (\<lambda>n vs. Inl (Error ''mockApi[name] is not a function'')),
      to_primitive_error = Error ''Cannot convert object to primitive value'',
      values_error = Error ''Cannot convert undefined or null to object''\<rparr>"

text \<open>
  The members of \<^verbatim>\<open>Object.prototype\<close>, called on \<^verbatim>\<open>mockApi\<close> with values of JSON:
  \<^verbatim>\<open>__proto__\<close> is no function, and the two definers throw for want of a function.
\<close>

definition sample_proto_call :: "string \<Rightarrow> jsval list \<Rightarrow> js_error + js_result" where
  "sample_proto_call n vs =
     (if n = ''toString'' \<or> n = ''toLocaleString'' then Inr (Value (JStr ''[object Object]''))
      else if n = ''valueOf'' then Inr HostObject
      else if n = ''constructor'' then
        (case param 0 vs of
           JUndefined \<Rightarrow> Inr (Value (JObj []))
         | JNull \<Rightarrow> Inr (Value (JObj []))
         | JArr xs \<Rightarrow> Inr (Value (JArr xs))
         | JObj ps \<Rightarrow> Inr (Value (JObj ps))
         | _ \<Rightarrow> Inr HostObject)
      else if n = ''hasOwnProperty'' \<or> n = ''propertyIsEnumerable'' then
        (case to_string plain_host (param 0 vs) of
           Inl e \<Rightarrow> Inl e
         | Inr k \<Rightarrow> Inr (Value (JBool (k \<in> set mockApi_keys))))
      else if n = ''isPrototypeOf'' then Inr (Value (JBool False))
      else if n = ''__lookupGetter__'' \<or> n = ''__lookupSetter__'' then
        (case to_string plain_host (param 0 vs) of
           Inl e \<Rightarrow> Inl e
         | Inr k \<Rightarrow> if k = ''__proto__'' then Inr HostObject else Inr (Value JUndefined))
      else if n = ''__defineGetter__'' \<or> n = ''__defineSetter__''
        then Inl (Error (''Object.prototype.'' @ n @ '': Expecting function''))
      else Inl (Error ''mockApi[name] is not a function''))"

definition sample_host :: host where
  "sample_host = plain_host\<lparr>proto_call := sample_proto_call\<rparr>"

text \<open>The page before any event: nothing in the history, the dialog hidden, the form enabled.\<close>

definition fresh_page :: ui where
  "fresh_page =
     \<lparr>chat_history = [], loading_element = False, input_value = [], input_disabled = False,
      submit_disabled = False, input_focused = False, modal_hidden = True,
      overlay_hidden = True, modal_body = [], action_to_confirm = None, console_errors = []\<rparr>"

text \<open>Requested calls: three that are well formed, and three that are not.\<close>

definition status_call :: function_call where
  "status_call =
     \<lparr>name = Some ''getNodeStatus'', args = Some [(''nodeId'', JStr ''ana-agi-node-1'')]\<rparr>"

definition deploy_call :: function_call where
  "deploy_call =
     \<lparr>name = Some ''startDeployment'',
      args = Some [(''packageId'', JStr ''2.0.0 G-Sync''), (''nodeId'', JStr ''ana-agi-node-1'')]\<rparr>"

definition score_call :: function_call where
  "score_call = \<lparr>name = Some ''getSystemComplianceScore'', args = Some []\<rparr>"

text \<open>A call of the compliance score whose argument record is left out.\<close>

definition bare_score_call :: function_call where
  "bare_score_call = \<lparr>name = Some ''getSystemComplianceScore'', args = None\<rparr>"

text \<open>An object that no method converts: \<^verbatim>\<open>{ "toString": 1 }\<close>.\<close>

definition odd_object :: jsval where
  "odd_object = JObj [(''toString'', JNum (Finite 1))]"

definition odd_status_call :: function_call where
  "odd_status_call = \<lparr>name = Some ''getNodeStatus'', args = Some [(''nodeId'', odd_object)]\<rparr>"


text \<open>
  A scripted session that counts its sends. It answers the user's text by asking for the
  status of a node and for a deployment, and answers a batch of two results with a text;
  any other batch makes the send throw.
\<close>

definition sample_send :: "nat sender" where
  "sample_send c m =
     (case m of
        UserText t \<Rightarrow>
          (Inr \<lparr>text_part = None, functionCalls = Some [status_call, deploy_call]\<rparr>, Suc c)
      | FunctionResponses frs \<Rightarrow>
          (if length frs = 2
           then Inr \<lparr>text_part = Some ''Deployment staged.'', functionCalls = None\<rparr>
           else Inl (Error ''unexpected batch''),
           Suc c))"

text \<open>A session whose first send asks for the compliance score and whose later sends throw.\<close>

definition failing_send :: "nat sender" where
  "failing_send c m =
     (if c = 0
      then Inr \<lparr>text_part = None, functionCalls = Some [score_call]\<rparr>
      else Inl (Error ''network down''),
      Suc c)"

text \<open>
  A session that answers the user's text by asking for the compliance score and for the
  status of the odd object, and would answer any batch with a text.
\<close>

definition odd_send :: "nat sender" where
  "odd_send c m =
     (case m of
        UserText t \<Rightarrow>
          (Inr \<lparr>text_part = None, functionCalls = Some [score_call, odd_status_call]\<rparr>, Suc c)
      | FunctionResponses frs \<Rightarrow>
          (Inr \<lparr>text_part = Some ''Done.'', functionCalls = None\<rparr>, Suc c))"

text \<open>The page with a question typed into the input field, a no-break space before it.\<close>

definition asking_page :: ui where
  "asking_page = fresh_page\<lparr>input_value := [CHR 0xC2, CHR 0xA0] @ '' score?  ''\<rparr>"

text \<open>The page after a deployment was staged, and a running application showing it.\<close>

definition staged_page :: ui where
  "staged_page =
     snd (startDeployment sample_host (JStr ''2.0.0 G-Sync'') (JStr ''ana-agi-node-1'')
            fresh_page)"




section \<open>The confirmation dialog as a state machine\<close>





section \<open>Conversions\<close>

lemma to_string_convertible: "convertible v \<Longrightarrow> \<exists>s. to_string h v = Inr s"
  and element_strings_convertible:
    "list_all convertible xs \<Longrightarrow> \<exists>ss. element_strings h xs = Inr ss"
  by (induction h v and h xs rule: to_string_element_strings.induct) auto

lemma to_number_convertible: "convertible v \<Longrightarrow> \<exists>n. to_number h v = Inr n"
  using to_string_convertible [of v h]
  by (cases v) (auto simp: to_number_def)

lemma slice_end_convertible: "convertible v \<Longrightarrow> \<exists>k. slice_end h len v = Inr k \<and> k \<le> len"
  using to_number_convertible [of v h]
  by (auto simp: slice_end_def split: ext_int.splits)

lemma param_convertible: "list_all convertible vs \<Longrightarrow> convertible (param i vs)"
  by (simp add: param_def list_all_length)

lemma odd_object_throws: "to_string h odd_object = Inl (to_primitive_error h)"
  by (simp add: odd_object_def)

section \<open>The log fixture's output, line by line\<close>

lemma lines_of_no_newline: "newline \<notin> set a \<Longrightarrow> lines_of a = [a]"
  by (induction a) (auto split: list.splits)

lemma lines_of_append:
  "newline \<notin> set a \<Longrightarrow> lines_of (a @ newline # rest) = a # lines_of rest"
  by (induction a) (auto split: list.splits)

lemma lines_of_join:
  "\<forall>x \<in> set xs. newline \<notin> set x \<Longrightarrow> xs \<noteq> [] \<Longrightarrow> lines_of (join [newline] xs) = xs"
proof (induction xs)
  case Nil
  then show ?case by simp
next
  case (Cons x xs)
  show ?case
  proof (cases xs)
    case Nil
    with Cons.prems show ?thesis by (simp add: lines_of_no_newline)
  next
    case (Cons y ys)
    with Cons.prems Cons.IH have "lines_of (join [newline] xs) = xs" by simp
    with Cons Cons.prems show ?thesis
      using lines_of_append[of x "join [newline] (y # ys)"] by simp
  qed
qed

lemma digit_no_newline: "n < 10 \<Longrightarrow> digit_char n \<noteq> newline"
proof -
  assume "n < 10"
  then have "n \<in> {0,1,2,3,4,5,6,7,8,9}" by auto
  then show ?thesis by (auto simp: newline_def digit_char_def)
qed

lemma string_of_nat_no_newline: "newline \<notin> set (string_of_nat n)"
proof (induction n rule: string_of_nat.induct)
  case (1 n)
  show ?case
  proof (cases "n < 10")
    case True
    then show ?thesis using digit_no_newline[of n] by (subst string_of_nat.simps) simp
  next
    case False
    then show ?thesis using 1 digit_no_newline[of "n mod 10"]
      by (subst string_of_nat.simps) simp
  qed
qed

lemma integer_digits_no_newline: "newline \<notin> set (integer_digits n)"
  using string_of_nat_no_newline by (auto simp: integer_digits_def newline_def)

lemma num_char_no_newline: "newline \<noteq> num_char_text c"
proof (cases c)
  case (Digit d)
  have "d mod 10 < 10" by simp
  from digit_no_newline [OF this] Digit show ?thesis by auto
qed (simp_all add: newline_def)

lemma num_chars_no_newline: "newline \<notin> set (map num_char_text cs)"
  using num_char_no_newline by (induction cs) auto

lemma number_to_string_no_newline: "newline \<notin> set (number_to_string h n)"
proof (cases n)
  case (Finite x)
  then show ?thesis
    using integer_digits_no_newline [of "\<lfloor>x\<rfloor>"] num_chars_no_newline [of "number_text h x"]
    by (simp add: number_to_string_def)
qed (simp_all add: number_to_string_def newline_def)

lemma header_no_newline: "newline \<notin> set (logs_header (number_to_string h n))"
  using number_to_string_no_newline [of h n] by (simp add: logs_header_def newline_def)

lemma format_log_no_newline: "e \<in> set logs \<Longrightarrow> newline \<notin> set (format_log e)"
  by (auto simp: logs_def format_log_def newline_def)

lemma format_log_bulleted: "bulleted (format_log e)"
  by (simp add: bulleted_def format_log_def)

lemma format_log_nonempty: "format_log e \<noteq> []"
  by (simp add: format_log_def)

text \<open>The number of entries that \<^verbatim>\<open>slice\<close> keeps of a list, for a numeric end.\<close>

lemma slice_end_number:
  "slice_end h len (JNum n) =
     Inr (case to_integer_or_infinity n of
            NegInf \<Rightarrow> 0
          | Fin r \<Rightarrow> (if r < 0 then nat (max (int len + r) 0) else nat (min r (int len)))
          | PosInf \<Rightarrow> len)"
  by (simp add: slice_end_def to_number_def)

lemma logs_length: "length logs = 5"
  by (simp add: logs_def)

lemma logs_for_number:
  "\<exists>k \<le> 5. slice_end h 5 (JNum n) = Inr k \<and> slice0 h logs (JNum n) = Inr (take k logs) \<and>
     getLatestVaultLogs h (JNum n) =
       Inr (logs_header (number_to_string h n) @ newline
            # join [newline] (map format_log (take k logs)))"
proof -
  from slice_end_convertible [of "JNum n" h 5] obtain k where
    k: "slice_end h 5 (JNum n) = Inr k" "k \<le> 5" by auto
  then show ?thesis
    by (auto simp: getLatestVaultLogs_def slice0_def logs_length)
qed

lemma entry_lines_take:
  "entry_lines (logs_header (number_to_string h n) @ newline # join [newline] (map format_log (take k logs))) =
     map format_log (take k logs)"
proof -
  let ?es = "take k logs"
  have l: "lines_of (logs_header (number_to_string h n) @ newline # join [newline] (map format_log ?es)) =
      logs_header (number_to_string h n) # lines_of (join [newline] (map format_log ?es))"
    by (rule lines_of_append [OF header_no_newline])
  show ?thesis
  proof (cases "?es = []")
    case True
    from l show ?thesis by (simp add: entry_lines_def True)
  next
    case False
    have "set ?es \<subseteq> set logs" by (auto dest: in_set_takeD)
    then have "\<forall>x \<in> set (map format_log ?es). newline \<notin> set x"
      using format_log_no_newline by auto
    with False have "lines_of (join [newline] (map format_log ?es)) = map format_log ?es"
      by (intro lines_of_join) auto
    then show ?thesis
      by (simp add: entry_lines_def l format_log_nonempty filter_map o_def)
  qed
qed

text \<open>The output for a numeric limit, with its first line and its entries.\<close>

lemma logs_output:
  "\<exists>out. getLatestVaultLogs h (JNum n) = Inr out \<and>
     hd (lines_of out) = logs_header (number_to_string h n) \<and>
     (\<exists>es. slice0 h logs (JNum n) = Inr es \<and> entry_lines out = map format_log es)"
proof -
  from logs_for_number [of h n] obtain k where
    s: "slice0 h logs (JNum n) = Inr (take k logs)" and
    g: "getLatestVaultLogs h (JNum n) =
       Inr (logs_header (number_to_string h n) @ newline # join [newline] (map format_log (take k logs)))"
    by blast
  show ?thesis
    using s g entry_lines_take [of h n k]
      lines_of_append [OF header_no_newline, of h n "join [newline] (map format_log (take k logs))"]
    by simp
qed

lemma log_entries_number:
  "\<exists>k \<le> 5. slice_end h 5 (JNum n) = Inr k \<and>
     log_entries h (JNum n) = Some (map format_log (take k logs)) \<and>
     log_header_line h (JNum n) = Some (logs_header (number_to_string h n))"
proof -
  from logs_for_number [of h n] obtain k where
    k: "k \<le> 5" "slice_end h 5 (JNum n) = Inr k" and
    g: "getLatestVaultLogs h (JNum n) =
       Inr (logs_header (number_to_string h n) @ newline
            # join [newline] (map format_log (take k logs)))"
    by blast
  have "log_entries h (JNum n) = Some (map format_log (take k logs))"
    by (simp add: log_entries_def g entry_lines_take)
  moreover have "log_header_line h (JNum n) = Some (logs_header (number_to_string h n))"
    by (simp add: log_header_line_def g lines_of_append [OF header_no_newline])
  ultimately show ?thesis using k by blast
qed

lemma slice_end_finite:
  "slice_end h len (JNum (Finite x)) =
     Inr (if x \<le> - 1 then nat (max (int len - \<lfloor>- x\<rfloor>) 0) else nat (min \<lfloor>x\<rfloor> (int len)))"
proof -
  consider "x \<le> - 1" | "- 1 < x" "x < 0" | "0 \<le> x" by linarith
  then show ?thesis
  proof cases
    case 1
    then have "x < 0" "- \<lfloor>- x\<rfloor> < 0" by linarith+
    with 1 show ?thesis by (simp add: slice_end_number to_integer_or_infinity_def)
  next
    case 2
    then have "\<lfloor>- x\<rfloor> = 0" "\<lfloor>x\<rfloor> = - 1" by linarith+
    with 2 show ?thesis by (simp add: slice_end_number to_integer_or_infinity_def)
  next
    case 3
    then have "\<not> x < 0" "\<not> \<lfloor>x\<rfloor> < 0" "\<not> x \<le> - 1" by linarith+
    then show ?thesis by (simp add: slice_end_number to_integer_or_infinity_def)
  qed
qed

lemma log_entries_finite:
  "log_entries h (JNum (Finite x)) =
     Some (map format_log
       (take (if x \<le> - 1 then nat (max (5 - \<lfloor>- x\<rfloor>) 0) else nat (min \<lfloor>x\<rfloor> 5)) logs))"
  using log_entries_number [of h "Finite x"] by (auto simp: slice_end_finite)

section \<open>The status fixture\<close>

text \<open>
  C2. For a node identifier given as a string: if it is the known node, the fixture returns a
  text that contains the identifier, its status, its version and its CPU load; otherwise it
  returns the "not found" message for that identifier.
\<close>

theorem getNodeStatus_known_or_not_found:
  "(s = known_node \<longrightarrow>
      (\<exists>out. getNodeStatus h (JStr s) = Inr out \<and>
         sublist s out \<and>
         sublist ''Status: Active'' out \<and>
         sublist ''Version: 2.0.0 G-Sync'' out \<and>
         sublist ''CPU Load: 12%'' out)) \<and>
   (s \<noteq> known_node \<longrightarrow>
      getNodeStatus h (JStr s) =
        Inr (''Error fetching status for '' @ s @ '': Node not found.'') \<and>
      sublist ''not found'' (''Error fetching status for '' @ s @ '': Node not found.''))"
proof (intro conjI impI)
  assume k: "s = known_node"
  let ?out = "''Status for node ana-agi-node-1:'' @ [newline] @ ''- Status: Active'' @ [newline]
      @ ''- Version: 2.0.0 G-Sync'' @ [newline] @ ''- CPU Load: 12%''"
  have g: "getNodeStatus h (JStr s) = Inr ?out"
    by (simp add: getNodeStatus_def k known_node_def)
  have "sublist s ?out" unfolding k by code_simp
  moreover have "sublist ''Status: Active'' ?out" by code_simp
  moreover have "sublist ''Version: 2.0.0 G-Sync'' ?out" by code_simp
  moreover have "sublist ''CPU Load: 12%'' ?out" by code_simp
  ultimately show "\<exists>out. getNodeStatus h (JStr s) = Inr out \<and>
         sublist s out \<and>
         sublist ''Status: Active'' out \<and>
         sublist ''Version: 2.0.0 G-Sync'' out \<and>
         sublist ''CPU Load: 12%'' out"
    using g by blast
next
  assume u: "s \<noteq> known_node"
  then show "getNodeStatus h (JStr s) =
        Inr (''Error fetching status for '' @ s @ '': Node not found.'')"
    by (simp add: getNodeStatus_def)
  have "''Error fetching status for '' @ s @ '': Node not found.'' =
      (''Error fetching status for '' @ s @ '': Node '') @ ''not found'' @ ''.''"
    by simp
  then show "sublist ''not found'' (''Error fetching status for '' @ s @ '': Node not found.'')"
    by (metis sublist_appendI)
qed

theorem getNodeStatus_known_or_not_found_witness:
  "''ana-agi-node-1'' = known_node \<and> ''node-2'' \<noteq> known_node \<and>
   (\<exists>out. getNodeStatus sample_host (JStr ''ana-agi-node-1'') = Inr out \<and>
      sublist ''ana-agi-node-1'' out \<and> sublist ''CPU Load: 12%'' out) \<and>
   getNodeStatus sample_host (JStr ''node-2'') =
     Inr ''Error fetching status for node-2: Node not found.''"
  using getNodeStatus_known_or_not_found [of "''ana-agi-node-1''" sample_host]
    getNodeStatus_known_or_not_found [of "''node-2''" sample_host]
  by (auto simp: known_node_def)

section \<open>The log fixture\<close>

lemma floor_five_halves: "\<lfloor>5 / 2 :: rat\<rfloor> = 2"
  by code_simp

text \<open>
  C3, as stated: for every limit N the output holds at most N entries. The limit -1 is a
  number the fixture accepts, and \<^verbatim>\<open>slice(0, -1)\<close> keeps all of the list but its last entry:
  the output holds the first four entries, which are more than -1, and more than none.
\<close>

theorem getLatestVaultLogs_negative_limit:
  "log_entries sample_host (JNum (Finite (- 1))) =
     Some [''- [INFO] System compliance check passed.'',
           ''- [ERROR] Connection to database failed.'',
           ''- [INFO] Deployment of package 1.9.9 started on ana-agi-node-1.'',
           ''- [WARN] High CPU usage detected on node-2.''] \<and>
   \<not> int (length (the (log_entries sample_host (JNum (Finite (- 1)))))) \<le> - 1 \<and>
   \<not> length (the (log_entries sample_host (JNum (Finite (- 1))))) \<le> nat (- 1)"
  by (simp add: log_entries_finite logs_def format_log_def)

text \<open>
  C3, amended: for every limit N that is a finite number and not negative, the fixture returns
  an output that holds at most N entries; and for every number given as the limit, it returns
  an output whose entries are each a line that begins with "- ".
\<close>

theorem getLatestVaultLogs_at_most_limit:
  "(0 \<le> x \<longrightarrow>
      (\<exists>es. log_entries h (JNum (Finite x)) = Some es \<and> of_nat (length es) \<le> x)) \<and>
   (\<exists>es. log_entries h (JNum n) = Some es \<and> list_all bulleted es)"
proof (intro conjI impI)
  assume x: "0 \<le> x"
  then have n: "\<not> x \<le> - 1" by simp
  let ?es = "map format_log (take (nat (min \<lfloor>x\<rfloor> 5)) logs)"
  have "length ?es \<le> nat \<lfloor>x\<rfloor>" by (simp add: logs_length)
  then have "rat_of_nat (length ?es) \<le> rat_of_nat (nat \<lfloor>x\<rfloor>)" by (rule of_nat_mono)
  also have "\<dots> = of_int \<lfloor>x\<rfloor>" using x by simp
  also have "\<dots> \<le> x" by (rule of_int_floor_le)
  finally have "rat_of_nat (length ?es) \<le> x" .
  moreover have "log_entries h (JNum (Finite x)) = Some ?es"
    using n by (simp add: log_entries_finite)
  ultimately show "\<exists>es. log_entries h (JNum (Finite x)) = Some es \<and> of_nat (length es) \<le> x"
    by blast
next
  from log_entries_number [of h n]
  show "\<exists>es. log_entries h (JNum n) = Some es \<and> list_all bulleted es"
    by (auto simp: list_all_iff format_log_bulleted)
qed

theorem getLatestVaultLogs_at_most_limit_witness:
  "(0::rat) \<le> 5 / 2 \<and>
   log_entries sample_host (JNum (Finite (5 / 2))) =
     Some [''- [INFO] System compliance check passed.'',
           ''- [ERROR] Connection to database failed.''] \<and>
   rat_of_nat (length (the (log_entries sample_host (JNum (Finite (5 / 2)))))) \<le> 5 / 2 \<and>
   list_all bulleted (the (log_entries sample_host (JNum (Finite (5 / 2)))))"
proof -
  have e: "log_entries sample_host (JNum (Finite (5 / 2))) =
     Some [''- [INFO] System compliance check passed.'',
           ''- [ERROR] Connection to database failed.'']"
    by (simp add: log_entries_finite floor_five_halves logs_def format_log_def)
  from getLatestVaultLogs_at_most_limit [of "5 / 2" sample_host "Finite (5 / 2)"] e
  show ?thesis by simp
qed

lemma safe_integer_of_int: "\<bar>k\<bar> \<le> 2 ^ 53 \<Longrightarrow> safe_integer (of_int k)"
proof -
  assume "\<bar>k\<bar> \<le> 2 ^ 53"
  then have "rat_of_int \<bar>k\<bar> \<le> rat_of_int (2 ^ 53)" by (simp only: of_int_le_iff)
  then show ?thesis by (simp add: safe_integer_def)
qed

text \<open>
  C8. For every number N given as the limit the fixture returns an output of at most 5
  entries, the list being fixed at 5; a limit above 5 gives exactly 5 entries, under a header
  line that still reads "Last N logs", with N as \<^verbatim>\<open>Number::toString\<close> writes it: in all its
  digits for an integer up to \<open>2\<^sup>5\<^sup>3\<close>, and as the host writes it beyond (\<^verbatim>\<open>1e+21\<close> for
  \<open>10\<^sup>2\<^sup>1\<close>).
\<close>

theorem getLatestVaultLogs_at_most_five:
  "(\<exists>es. log_entries h (JNum n) = Some es \<and> length es \<le> 5) \<and>
   (5 < x \<longrightarrow>
      (\<exists>es. log_entries h (JNum (Finite x)) = Some es \<and> length es = 5) \<and>
      log_header_line h (JNum (Finite x)) =
        Some (''Last '' @ number_to_string h (Finite x) @ '' logs from the Vault:'')) \<and>
   (5 < k \<and> k \<le> 2 ^ 53 \<longrightarrow>
      log_header_line h (JNum (Finite (of_int k))) =
        Some (''Last '' @ integer_digits k @ '' logs from the Vault:''))"
proof (intro conjI impI)
  from log_entries_number [of h n]
  show "\<exists>es. log_entries h (JNum n) = Some es \<and> length es \<le> 5"
    by auto
next
  assume x: "5 < x"
  then have "\<not> x \<le> - 1" "5 \<le> \<lfloor>x\<rfloor>" by linarith+
  then show "\<exists>es. log_entries h (JNum (Finite x)) = Some es \<and> length es = 5"
    by (simp add: log_entries_finite logs_length)
  from log_entries_number [of h "Finite x"]
  show "log_header_line h (JNum (Finite x)) =
        Some (''Last '' @ number_to_string h (Finite x) @ '' logs from the Vault:'')"
    by (auto simp: logs_header_def)
next
  assume "5 < k \<and> k \<le> 2 ^ 53"
  then have "\<bar>k\<bar> \<le> 2 ^ 53" by simp
  then have "number_to_string h (Finite (of_int k)) = integer_digits k"
    using safe_integer_of_int [of k] by (simp add: number_to_string_def)
  with log_entries_number [of h "Finite (of_int k)"]
  show "log_header_line h (JNum (Finite (of_int k))) =
        Some (''Last '' @ integer_digits k @ '' logs from the Vault:'')"
    by (auto simp: logs_header_def)
qed

theorem getLatestVaultLogs_at_most_five_witness:
  "(5::rat) < 7 \<and> (5::int) < 7 \<and> (7::int) \<le> 2 ^ 53 \<and>
   length (the (log_entries sample_host (JNum (Finite 7)))) = 5 \<and>
   log_header_line sample_host (JNum (Finite 7)) = Some ''Last 7 logs from the Vault:'' \<and>
   (5::rat) < 10 ^ 21 \<and>
   log_header_line sample_host (JNum (Finite (10 ^ 21))) =
     Some ''Last 1e+21 logs from the Vault:''"
proof -
  have d: "integer_digits 7 = ''7''"
    by (simp add: integer_digits_def string_of_nat.simps digit_char_def)
  have t: "number_to_string sample_host (Finite (10 ^ 21)) = ''1e+21''"
    by (simp add: number_to_string_def safe_integer_def sample_host_def plain_host_def
        sample_number_text_def digit_char_def)
  from getLatestVaultLogs_at_most_five [of sample_host "Finite 7" 7 7]
    getLatestVaultLogs_at_most_five [of sample_host "Finite 7" "10 ^ 21" 7] d t
  show ?thesis by auto
qed

section \<open>The four fixtures\<close>

text \<open>
  C7, as stated: for every input, no fixture throws. The object \<^verbatim>\<open>{ "toString": 1 }\<close> is a value
  that an argument record can hold, and no method converts it to a string or a number: given
  it, the template literal of getNodeStatus throws a \<^verbatim>\<open>TypeError\<close>, and so do \<^verbatim>\<open>slice\<close> in
  getLatestVaultLogs and the template literal of startDeployment.
\<close>

theorem fixture_throws_on_odd_object:
  "''getNodeStatus'' \<in> set mockApi_keys \<and>
   call_member sample_host ''getNodeStatus'' [odd_object] fresh_page =
     (Inl (Error ''Cannot convert object to primitive value''), fresh_page) \<and>
   getLatestVaultLogs sample_host odd_object =
     Inl (Error ''Cannot convert object to primitive value'') \<and>
   fst (startDeployment sample_host odd_object (JStr ''ana-agi-node-1'') fresh_page) =
     Inl (Error ''Cannot convert object to primitive value'')"
  by (simp add: mockApi_keys_def call_member_def getNodeStatus_def param_def odd_object_def
      known_node_def sample_host_def plain_host_def getLatestVaultLogs_def slice0_def
      slice_end_def to_number_def startDeployment_def Let_def)

lemma getNodeStatus_returns:
  "convertible v \<Longrightarrow>
   \<exists>s. getNodeStatus h v = Inr s \<and> (prefix ''Error'' s \<longleftrightarrow> v \<noteq> JStr known_node)"
proof -
  assume "convertible v"
  then obtain t where t: "to_string h v = Inr t"
    using to_string_convertible by blast
  show ?thesis
  proof (cases "v = JStr known_node")
    case True
    then show ?thesis by (simp add: getNodeStatus_def)
  next
    case False
    with t show ?thesis by (simp add: getNodeStatus_def)
  qed
qed

lemma getLatestVaultLogs_returns:
  "convertible v \<Longrightarrow> \<exists>s. getLatestVaultLogs h v = Inr s \<and> \<not> prefix ''Error'' s"
proof -
  assume c: "convertible v"
  then obtain t where t: "to_string h v = Inr t"
    using to_string_convertible by blast
  from c obtain k where k: "slice_end h (length logs) v = Inr k"
    using slice_end_convertible by blast
  show ?thesis by (simp add: getLatestVaultLogs_def slice0_def logs_header_def t k)
qed

lemma startDeployment_returns:
  "convertible p \<Longrightarrow> convertible nd \<Longrightarrow>
   \<exists>pt nt. to_string h p = Inr pt \<and> to_string h nd = Inr nt \<and>
     startDeployment h p nd u =
       (Inr ''Please confirm the deployment in the dialog box.'',
        u\<lparr>action_to_confirm := Some \<lparr>atype = ''DEPLOYMENT'', packageId = p, nodeId = nd\<rparr>,
          modal_body := dialog_text pt nt, modal_hidden := False, overlay_hidden := False\<rparr>)"
proof -
  assume "convertible p" "convertible nd"
  then obtain pt nt where t: "to_string h p = Inr pt" "to_string h nd = Inr nt"
    using to_string_convertible by blast
  then show ?thesis by (simp add: startDeployment_def)
qed

lemma call_getNodeStatus:
  "convertible (param 0 vs) \<Longrightarrow>
   \<exists>s. call_member h ''getNodeStatus'' vs u = (Inr (Value (JStr s)), u) \<and>
       (prefix ''Error'' s \<longleftrightarrow> param 0 vs \<noteq> JStr known_node)"
proof -
  assume c0: "convertible (param 0 vs)"
  from getNodeStatus_returns [OF c0, of h] obtain s where
    "getNodeStatus h (param 0 vs) = Inr s"
    "prefix ''Error'' s \<longleftrightarrow> param 0 vs \<noteq> JStr known_node" by blast
  then show ?thesis by (simp add: call_member_def)
qed

lemma call_getLatestVaultLogs:
  "convertible (param 0 vs) \<Longrightarrow>
   \<exists>s. call_member h ''getLatestVaultLogs'' vs u = (Inr (Value (JStr s)), u) \<and>
       \<not> prefix ''Error'' s"
proof -
  assume c0: "convertible (param 0 vs)"
  from getLatestVaultLogs_returns [OF c0, of h] obtain s where
    "getLatestVaultLogs h (param 0 vs) = Inr s" "\<not> prefix ''Error'' s" by blast
  then show ?thesis by (simp add: call_member_def)
qed

lemma call_getSystemComplianceScore:
  "\<exists>s. call_member h ''getSystemComplianceScore'' vs u = (Inr (Value (JStr s)), u) \<and>
       \<not> prefix ''Error'' s"
  by (simp add: call_member_def getSystemComplianceScore_def)

lemma call_startDeployment:
  "convertible (param 0 vs) \<Longrightarrow> convertible (param 1 vs) \<Longrightarrow>
   \<exists>s. call_member h ''startDeployment'' vs u =
          (Inr (Value (JStr s)),
           u\<lparr>action_to_confirm :=
                Some \<lparr>atype = ''DEPLOYMENT'', packageId = param 0 vs, nodeId = param 1 vs\<rparr>,
             modal_body := modal_body (snd (startDeployment h (param 0 vs) (param 1 vs) u)),
             modal_hidden := False, overlay_hidden := False\<rparr>) \<and>
       \<not> prefix ''Error'' s"
proof -
  assume c0: "convertible (param 0 vs)" and c1: "convertible (param 1 vs)"
  from startDeployment_returns [OF c0 c1, of h u] obtain pt nt where
    "startDeployment h (param 0 vs) (param 1 vs) u =
       (Inr ''Please confirm the deployment in the dialog box.'',
        u\<lparr>action_to_confirm :=
             Some \<lparr>atype = ''DEPLOYMENT'', packageId = param 0 vs, nodeId = param 1 vs\<rparr>,
          modal_body := dialog_text pt nt, modal_hidden := False, overlay_hidden := False\<rparr>)"
    by blast
  then show ?thesis by (simp add: call_member_def)
qed

lemma fixture_cases:
  "n \<in> set mockApi_keys \<Longrightarrow> P ''getNodeStatus'' \<Longrightarrow> P ''getLatestVaultLogs'' \<Longrightarrow>
   P ''getSystemComplianceScore'' \<Longrightarrow> P ''startDeployment'' \<Longrightarrow> P n"
  by (auto simp: mockApi_keys_def)

text \<open>
  C7, amended: called with argument values that the language converts to a string (every
  value but an object with a property \<^verbatim>\<open>toString\<close> of its own, and the arrays that hold one),
  each of the four fixtures returns a string and throws nothing. The three read-only fixtures
  leave the page as it is, and startDeployment changes only the pending action and the
  dialog; none reaches the chat session. The returned string begins with "Error" only when
  getNodeStatus is given an identifier other than the known node.
\<close>

theorem fixtures_return_strings:
  "\<forall>n \<in> set mockApi_keys.
     list_all convertible vs \<longrightarrow>
       (\<exists>s. call_member h n vs u =
              (Inr (Value (JStr s)),
               if n = ''startDeployment''
               then u\<lparr>action_to_confirm :=
                        Some \<lparr>atype = ''DEPLOYMENT'', packageId = param 0 vs,
                              nodeId = param 1 vs\<rparr>,
                      modal_body := modal_body (snd (startDeployment h (param 0 vs) (param 1 vs) u)),
                      modal_hidden := False, overlay_hidden := False\<rparr>
               else u) \<and>
            (prefix ''Error'' s \<longleftrightarrow> n = ''getNodeStatus'' \<and> param 0 vs \<noteq> JStr known_node))"
proof (rule ballI, rule impI)
  fix n
  assume n: "n \<in> set mockApi_keys" and c: "list_all convertible vs"
  have c0: "convertible (param 0 vs)" and c1: "convertible (param 1 vs)"
    using c by (rule param_convertible)+
  show "\<exists>s. call_member h n vs u =
              (Inr (Value (JStr s)),
               if n = ''startDeployment''
               then u\<lparr>action_to_confirm :=
                        Some \<lparr>atype = ''DEPLOYMENT'', packageId = param 0 vs,
                              nodeId = param 1 vs\<rparr>,
                      modal_body := modal_body (snd (startDeployment h (param 0 vs) (param 1 vs) u)),
                      modal_hidden := False, overlay_hidden := False\<rparr>
               else u) \<and>
            (prefix ''Error'' s \<longleftrightarrow> n = ''getNodeStatus'' \<and> param 0 vs \<noteq> JStr known_node)"
    using n
  proof (rule fixture_cases)
    show "\<exists>s. call_member h ''getNodeStatus'' vs u =
              (Inr (Value (JStr s)),
               if ''getNodeStatus'' = ''startDeployment''
               then u\<lparr>action_to_confirm :=
                        Some \<lparr>atype = ''DEPLOYMENT'', packageId = param 0 vs,
                              nodeId = param 1 vs\<rparr>,
                      modal_body := modal_body (snd (startDeployment h (param 0 vs) (param 1 vs) u)),
                      modal_hidden := False, overlay_hidden := False\<rparr>
               else u) \<and>
            (prefix ''Error'' s \<longleftrightarrow>
               ''getNodeStatus'' = ''getNodeStatus'' \<and> param 0 vs \<noteq> JStr known_node)"
      using call_getNodeStatus [OF c0, of h u] by simp
    show "\<exists>s. call_member h ''getLatestVaultLogs'' vs u =
              (Inr (Value (JStr s)),
               if ''getLatestVaultLogs'' = ''startDeployment''
               then u\<lparr>action_to_confirm :=
                        Some \<lparr>atype = ''DEPLOYMENT'', packageId = param 0 vs,
                              nodeId = param 1 vs\<rparr>,
                      modal_body := modal_body (snd (startDeployment h (param 0 vs) (param 1 vs) u)),
                      modal_hidden := False, overlay_hidden := False\<rparr>
               else u) \<and>
            (prefix ''Error'' s \<longleftrightarrow>
               ''getLatestVaultLogs'' = ''getNodeStatus'' \<and> param 0 vs \<noteq> JStr known_node)"
      using call_getLatestVaultLogs [OF c0, of h u] by simp
    show "\<exists>s. call_member h ''getSystemComplianceScore'' vs u =
              (Inr (Value (JStr s)),
               if ''getSystemComplianceScore'' = ''startDeployment''
               then u\<lparr>action_to_confirm :=
                        Some \<lparr>atype = ''DEPLOYMENT'', packageId = param 0 vs,
                              nodeId = param 1 vs\<rparr>,
                      modal_body := modal_body (snd (startDeployment h (param 0 vs) (param 1 vs) u)),
                      modal_hidden := False, overlay_hidden := False\<rparr>
               else u) \<and>
            (prefix ''Error'' s \<longleftrightarrow>
               ''getSystemComplianceScore'' = ''getNodeStatus'' \<and> param 0 vs \<noteq> JStr known_node)"
      using call_getSystemComplianceScore [of h vs u] by simp
    show "\<exists>s. call_member h ''startDeployment'' vs u =
              (Inr (Value (JStr s)),
               if ''startDeployment'' = ''startDeployment''
               then u\<lparr>action_to_confirm :=
                        Some \<lparr>atype = ''DEPLOYMENT'', packageId = param 0 vs,
                              nodeId = param 1 vs\<rparr>,
                      modal_body := modal_body (snd (startDeployment h (param 0 vs) (param 1 vs) u)),
                      modal_hidden := False, overlay_hidden := False\<rparr>
               else u) \<and>
            (prefix ''Error'' s \<longleftrightarrow>
               ''startDeployment'' = ''getNodeStatus'' \<and> param 0 vs \<noteq> JStr known_node)"
      using call_startDeployment [OF c0 c1, of h u] by simp
  qed
qed

theorem fixtures_return_strings_witness:
  "''getNodeStatus'' \<in> set mockApi_keys \<and> list_all convertible [JStr ''node-2''] \<and>
   call_member sample_host ''getNodeStatus'' [JStr ''node-2''] fresh_page =
     (Inr (Value (JStr ''Error fetching status for node-2: Node not found.'')), fresh_page)"
proof -
  have m: "''getNodeStatus'' \<in> set mockApi_keys"
    by (simp add: mockApi_keys_def)
  have c: "list_all convertible [JStr ''node-2'']" by simp
  have e: "call_member sample_host ''getNodeStatus'' [JStr ''node-2''] fresh_page =
     (Inr (Value (JStr ''Error fetching status for node-2: Node not found.'')), fresh_page)"
    by (simp add: call_member_def getNodeStatus_def param_def known_node_def)
  from bspec [OF fixtures_return_strings m, of "[JStr ''node-2'']" sample_host fresh_page] c e m
  show ?thesis by simp
qed

section \<open>The pending action through the dispatch loop\<close>









lemma slot_appendMessage [simp]:
  "action_to_confirm (appendMessage t k u) = action_to_confirm u"
  by (simp add: appendMessage_def)

lemma slot_loading_show [simp]: "action_to_confirm (loading_show u) = action_to_confirm u"
  by (simp add: loading_show_def)

lemma slot_loading_hide [simp]: "action_to_confirm (loading_hide u) = action_to_confirm u"
  by (simp add: loading_hide_def)

lemma slot_finally [simp]: "action_to_confirm (finally_block u) = action_to_confirm u"
  by (simp add: finally_block_def)

lemma slot_on_error [simp]: "action_to_confirm (on_error e u) = action_to_confirm u"
  by (simp add: on_error_def)

lemma slot_on_reply [simp]: "action_to_confirm (on_reply r u) = action_to_confirm u"
  by (simp add: on_reply_def Let_def split: option.splits)



section \<open>The confirmation dialog\<close>







lemma sample_odd_conversion:
  "to_string sample_host odd_object = Inl (Error ''Cannot convert object to primitive value'')"
  by (simp add: odd_object_throws sample_host_def plain_host_def)










section \<open>The dispatch loop\<close>

lemma fixture_call_returns:
  assumes "n \<in> set mockApi_keys" and "list_all convertible vs"
  shows "\<exists>s u'. call_member h n vs u = (Inr (Value (JStr s)), u')"
  using assms(1)
proof (rule fixture_cases)
  from assms(2) have c0: "convertible (param 0 vs)" and c1: "convertible (param 1 vs)"
    by (rule param_convertible)+
  from call_getNodeStatus [OF c0, of h u]
  show "\<exists>s u'. call_member h ''getNodeStatus'' vs u = (Inr (Value (JStr s)), u')" by blast
  from call_getLatestVaultLogs [OF c0, of h u]
  show "\<exists>s u'. call_member h ''getLatestVaultLogs'' vs u = (Inr (Value (JStr s)), u')" by blast
  from call_getSystemComplianceScore [of h vs u]
  show "\<exists>s u'. call_member h ''getSystemComplianceScore'' vs u = (Inr (Value (JStr s)), u')"
    by blast
  from call_startDeployment [OF c0 c1, of h u]
  show "\<exists>s u'. call_member h ''startDeployment'' vs u = (Inr (Value (JStr s)), u')" by blast
qed

lemma fixture_in_mockApi: "n \<in> set mockApi_keys \<Longrightarrow> in_mockApi n"
  by (simp add: in_mockApi_def)

lemma unknown_name_skipped:
  "name fc = Some n \<Longrightarrow> \<not> in_mockApi n \<Longrightarrow>
   dispatch_calls h (fc # rest) acc u = dispatch_calls h rest acc u"
  by simp

lemma undefined_name_skipped:
  "name fc = None \<Longrightarrow> dispatch_calls h (fc # rest) acc u = dispatch_calls h rest acc u"
  by simp

lemma dispatch_call_throws:
  "name fc = Some n \<Longrightarrow> in_mockApi n \<Longrightarrow> args fc = Some a \<Longrightarrow>
   call_member h n (object_values a) u = (Inl e, u') \<Longrightarrow>
   dispatch_calls h (fc # rest) acc u = (Inl e, u')"
  by simp

lemma dispatch_call_without_arguments:
  "name fc = Some n \<Longrightarrow> in_mockApi n \<Longrightarrow> args fc = None \<Longrightarrow>
   dispatch_calls h (fc # rest) acc u = (Inl (values_error h), u)"
  by simp

lemma dispatch_call_returns:
  "name fc = Some n \<Longrightarrow> in_mockApi n \<Longrightarrow> args fc = Some a \<Longrightarrow>
   call_member h n (object_values a) u = (Inr res, u') \<Longrightarrow>
   dispatch_calls h (fc # rest) acc u =
     dispatch_calls h rest (acc @ [FunctionResponse n res]) u'"
  by simp

lemma dispatch_loop_calls:
  "functionCalls r = Some calls \<Longrightarrow> calls \<noteq> [] \<Longrightarrow>
   dispatch_loop h send c r u =
     (case dispatch_calls h calls [] u of
        (Inl e, u') \<Rightarrow> Some (Inl e, c, u')
      | (Inr functionResponses, u') \<Rightarrow>
          (case send c (FunctionResponses functionResponses) of
             (Inl e, c') \<Rightarrow> Some (Inl e, c', u')
           | (Inr r', c') \<Rightarrow> dispatch_loop h send c' r' u'))"
  by (subst dispatch_loop.simps) simp

lemma dispatch_loop_done:
  "functionCalls r = None \<or> functionCalls r = Some [] \<Longrightarrow>
   dispatch_loop h send c r u = Some (Inr r, c, u)"
  by (subst dispatch_loop.simps) auto

text \<open>
  C1, as stated: for every response with two requested calls that name mock fixtures, both
  fixtures are invoked and two entries are sent back. In the first response below the call of
  the compliance score comes without an argument record, which the interface allows:
  \<^verbatim>\<open>Object.values(undefined)\<close> throws before any fixture is invoked. In the second the status is
  asked of the object \<^verbatim>\<open>{ "toString": 1 }\<close>: the first fixture returns and the second throws. In
  both the loop ends with the exception and nothing is sent: the session is where it was.
\<close>

theorem two_calls_without_arguments:
  "name bare_score_call = Some ''getSystemComplianceScore'' \<and>
   ''getSystemComplianceScore'' \<in> set mockApi_keys \<and>
   args bare_score_call = None \<and>
   name status_call = Some ''getNodeStatus'' \<and>
   ''getNodeStatus'' \<in> set mockApi_keys \<and>
   dispatch_loop sample_host sample_send 1
       \<lparr>text_part = None, functionCalls = Some [bare_score_call, status_call]\<rparr> fresh_page =
     Some (Inl (Error ''Cannot convert undefined or null to object''), 1, fresh_page) \<and>
   name score_call = Some ''getSystemComplianceScore'' \<and>
   name odd_status_call = Some ''getNodeStatus'' \<and>
   args odd_status_call = Some [(''nodeId'', JObj [(''toString'', JNum (Finite 1))])] \<and>
   dispatch_loop sample_host sample_send 1
       \<lparr>text_part = None, functionCalls = Some [score_call, odd_status_call]\<rparr> fresh_page =
     Some (Inl (Error ''Cannot convert object to primitive value''), 1, fresh_page)"
proof -
  have k: "''getSystemComplianceScore'' \<in> set mockApi_keys" "''getNodeStatus'' \<in> set mockApi_keys"
    by (simp_all add: mockApi_keys_def)
  have d1: "dispatch_calls sample_host [bare_score_call, status_call] [] fresh_page =
      (Inl (Error ''Cannot convert undefined or null to object''), fresh_page)"
    by (simp add: bare_score_call_def fixture_in_mockApi k sample_host_def plain_host_def)
  have c1: "call_member sample_host ''getSystemComplianceScore'' [] fresh_page =
      (Inr (Value (JStr getSystemComplianceScore)), fresh_page)"
    by (simp add: call_member_def)
  have c2: "call_member sample_host ''getNodeStatus'' [odd_object] fresh_page =
      (Inl (Error ''Cannot convert object to primitive value''), fresh_page)"
    by (simp add: call_member_def getNodeStatus_def param_def sample_odd_conversion)
      (simp add: odd_object_def)
  have d2: "dispatch_calls sample_host [score_call, odd_status_call] [] fresh_page =
      (Inl (Error ''Cannot convert object to primitive value''), fresh_page)"
    by (simp add: score_call_def odd_status_call_def fixture_in_mockApi k object_values_def c1 c2)
  have l1: "dispatch_loop sample_host sample_send 1
       \<lparr>text_part = None, functionCalls = Some [bare_score_call, status_call]\<rparr> fresh_page =
     Some (Inl (Error ''Cannot convert undefined or null to object''), 1, fresh_page)"
    using dispatch_loop_calls [of "\<lparr>text_part = None,
        functionCalls = Some [bare_score_call, status_call]\<rparr>" "[bare_score_call, status_call]"
        sample_host sample_send 1 fresh_page]
    unfolding d1 by simp
  have l2: "dispatch_loop sample_host sample_send 1
       \<lparr>text_part = None, functionCalls = Some [score_call, odd_status_call]\<rparr> fresh_page =
     Some (Inl (Error ''Cannot convert object to primitive value''), 1, fresh_page)"
    using dispatch_loop_calls [of "\<lparr>text_part = None,
        functionCalls = Some [score_call, odd_status_call]\<rparr>" "[score_call, odd_status_call]"
        sample_host sample_send 1 fresh_page]
    unfolding d2 by simp
  show ?thesis
    using k l1 l2
    by (simp add: bare_score_call_def status_call_def score_call_def odd_status_call_def
        odd_object_def)
qed

text \<open>
  C1, amended. For a response whose list of requested calls is two calls that name mock
  fixtures, each with an argument record whose values the language converts to a string, the
  loop invokes the first fixture and then the second, on the page the first left, each
  returning a string; it pushes exactly two entries, each the call's name with its result, in
  the order of the calls; its next send carries exactly these two entries; and the loop goes
  on with the response to that send, or ends with the exception the send threw.
\<close>

theorem two_calls_two_results:
  assumes "functionCalls r = Some [c1, c2]"
    and "name c1 = Some n1" and "n1 \<in> set mockApi_keys"
    and "args c1 = Some a1" and "list_all convertible (object_values a1)"
    and "name c2 = Some n2" and "n2 \<in> set mockApi_keys"
    and "args c2 = Some a2" and "list_all convertible (object_values a2)"
  shows "\<exists>s1 u1 s2 u2.
     call_member h n1 (object_values a1) u = (Inr (Value (JStr s1)), u1) \<and>
     call_member h n2 (object_values a2) u1 = (Inr (Value (JStr s2)), u2) \<and>
     dispatch_calls h [c1, c2] [] u =
       (Inr [FunctionResponse n1 (Value (JStr s1)),
             FunctionResponse n2 (Value (JStr s2))], u2) \<and>
     dispatch_loop h send c r u =
       (case send c (FunctionResponses
                [FunctionResponse n1 (Value (JStr s1)),
                 FunctionResponse n2 (Value (JStr s2))]) of
          (Inl e, c') \<Rightarrow> Some (Inl e, c', u2)
        | (Inr r', c') \<Rightarrow> dispatch_loop h send c' r' u2)"
proof -
  from assms(3,5) obtain s1 u1 where
    m1: "call_member h n1 (object_values a1) u = (Inr (Value (JStr s1)), u1)"
    using fixture_call_returns by blast
  from assms(7,9) obtain s2 u2 where
    m2: "call_member h n2 (object_values a2) u1 = (Inr (Value (JStr s2)), u2)"
    using fixture_call_returns by blast
  have i: "in_mockApi n1" "in_mockApi n2"
    using assms(3,7) by (simp_all add: fixture_in_mockApi)
  have d: "dispatch_calls h [c1, c2] [] u =
       (Inr [FunctionResponse n1 (Value (JStr s1)),
             FunctionResponse n2 (Value (JStr s2))], u2)"
    using assms(2,4,6,8) i m1 m2 by simp
  have "dispatch_loop h send c r u =
       (case send c (FunctionResponses
                [FunctionResponse n1 (Value (JStr s1)),
                 FunctionResponse n2 (Value (JStr s2))]) of
          (Inl e, c') \<Rightarrow> Some (Inl e, c', u2)
        | (Inr r', c') \<Rightarrow> dispatch_loop h send c' r' u2)"
    using dispatch_loop_calls [OF assms(1), of h send c u] d by simp
  with m1 m2 d show ?thesis by blast
qed

theorem two_calls_two_results_witness:
  "functionCalls \<lparr>text_part = None, functionCalls = Some [status_call, deploy_call]\<rparr> =
     Some [status_call, deploy_call] \<and>
   name status_call = Some ''getNodeStatus'' \<and> ''getNodeStatus'' \<in> set mockApi_keys \<and>
   args status_call = Some [(''nodeId'', JStr ''ana-agi-node-1'')] \<and>
   list_all convertible (object_values [(''nodeId'', JStr ''ana-agi-node-1'')]) \<and>
   name deploy_call = Some ''startDeployment'' \<and> ''startDeployment'' \<in> set mockApi_keys \<and>
   args deploy_call =
     Some [(''packageId'', JStr ''2.0.0 G-Sync''), (''nodeId'', JStr ''ana-agi-node-1'')] \<and>
   list_all convertible
     (object_values [(''packageId'', JStr ''2.0.0 G-Sync''), (''nodeId'', JStr ''ana-agi-node-1'')]) \<and>
   dispatch_calls sample_host [status_call, deploy_call] [] fresh_page =
     (Inr [FunctionResponse ''getNodeStatus''
             (Value (JStr (''Status for node ana-agi-node-1:'' @ [newline]
                @ ''- Status: Active'' @ [newline] @ ''- Version: 2.0.0 G-Sync'' @ [newline]
                @ ''- CPU Load: 12%''))),
           FunctionResponse ''startDeployment''
             (Value (JStr ''Please confirm the deployment in the dialog box.''))],
      staged_page) \<and>
   dispatch_loop sample_host sample_send 1
       \<lparr>text_part = None, functionCalls = Some [status_call, deploy_call]\<rparr> fresh_page =
     Some (Inr \<lparr>text_part = Some ''Deployment staged.'', functionCalls = None\<rparr>, 2, staged_page)"
proof -
  let ?r = "\<lparr>text_part = None, functionCalls = Some [status_call, deploy_call]\<rparr>"
  let ?a1 = "[(''nodeId'', JStr ''ana-agi-node-1'')]"
  let ?a2 = "[(''packageId'', JStr ''2.0.0 G-Sync''), (''nodeId'', JStr ''ana-agi-node-1'')]"
  let ?status = "''Status for node ana-agi-node-1:'' @ [newline]
                @ ''- Status: Active'' @ [newline] @ ''- Version: 2.0.0 G-Sync'' @ [newline]
                @ ''- CPU Load: 12%''"
  have a: "functionCalls ?r = Some [status_call, deploy_call]" by simp
  have n: "name status_call = Some ''getNodeStatus''" "name deploy_call = Some ''startDeployment''"
    "args status_call = Some ?a1" "args deploy_call = Some ?a2"
    by (simp_all add: status_call_def deploy_call_def)
  have k: "''getNodeStatus'' \<in> set mockApi_keys" "''startDeployment'' \<in> set mockApi_keys"
    by (simp_all add: mockApi_keys_def)
  have v: "list_all convertible (object_values ?a1)" "list_all convertible (object_values ?a2)"
    by (simp_all add: object_values_def)
  have m1: "call_member sample_host ''getNodeStatus'' (object_values ?a1) fresh_page =
      (Inr (Value (JStr ?status)), fresh_page)"
    by (simp add: call_member_def object_values_def param_def getNodeStatus_def known_node_def)
  have m2: "call_member sample_host ''startDeployment'' (object_values ?a2) fresh_page =
      (Inr (Value (JStr ''Please confirm the deployment in the dialog box.'')), staged_page)"
    by (simp add: call_member_def object_values_def param_def staged_page_def
        startDeployment_def)
  from two_calls_two_results [OF a n(1) k(1) n(3) v(1) n(2) k(2) n(4) v(2),
      of sample_host fresh_page sample_send 1]
  obtain s1 u1 s2 u2 where
    c1: "call_member sample_host ''getNodeStatus'' (object_values ?a1) fresh_page =
      (Inr (Value (JStr s1)), u1)" and
    c2: "call_member sample_host ''startDeployment'' (object_values ?a2) u1 =
      (Inr (Value (JStr s2)), u2)" and
    d: "dispatch_calls sample_host [status_call, deploy_call] [] fresh_page =
       (Inr [FunctionResponse ''getNodeStatus'' (Value (JStr s1)),
             FunctionResponse ''startDeployment'' (Value (JStr s2))], u2)" and
    l: "dispatch_loop sample_host sample_send 1 ?r fresh_page =
       (case sample_send 1 (FunctionResponses
                [FunctionResponse ''getNodeStatus'' (Value (JStr s1)),
                 FunctionResponse ''startDeployment'' (Value (JStr s2))]) of
          (Inl e, c') \<Rightarrow> Some (Inl e, c', u2)
        | (Inr r', c') \<Rightarrow> dispatch_loop sample_host sample_send c' r' u2)"
    by blast
  from c1 m1 have e1: "s1 = ?status" "u1 = fresh_page" by simp_all
  from c2 m2 e1 have e2: "s2 = ''Please confirm the deployment in the dialog box.''"
    "u2 = staged_page" by simp_all
  have "dispatch_loop sample_host sample_send 1 ?r fresh_page =
     Some (Inr \<lparr>text_part = Some ''Deployment staged.'', functionCalls = None\<rparr>, 2, staged_page)"
    unfolding l e2 by (simp add: sample_send_def dispatch_loop_done)
  with a n k v d e1 e2 show ?thesis by simp
qed

text \<open>
  C9, at a requested call whose name is none of the four fixtures. The name \<^verbatim>\<open>toString\<close> passes
  the test \<^verbatim>\<open>name in mockApi\<close>, since the operator also finds what the object inherits: the
  inherited member is called, and the batch gets an entry for it or the call throws, on every
  host. On the sample host the entry holds "[object Object]", and the name \<^verbatim>\<open>__proto__\<close>,
  which is no function, ends the batch with an exception.
\<close>

theorem inherited_name_is_dispatched:
  "''toString'' \<notin> set mockApi_keys \<and> in_mockApi ''toString'' \<and>
   dispatch_calls h [\<lparr>name = Some ''toString'', args = Some a\<rparr>] [] u =
     (case proto_call h ''toString'' (object_values a) of
        Inl e \<Rightarrow> (Inl e, u)
      | Inr v \<Rightarrow> (Inr [FunctionResponse ''toString'' v], u)) \<and>
   dispatch_calls sample_host [\<lparr>name = Some ''toString'', args = Some []\<rparr>] [] fresh_page =
     (Inr [FunctionResponse ''toString'' (Value (JStr ''[object Object]''))], fresh_page) \<and>
   ''__proto__'' \<notin> set mockApi_keys \<and> in_mockApi ''__proto__'' \<and>
   dispatch_calls sample_host [\<lparr>name = Some ''__proto__'', args = Some []\<rparr>] [] fresh_page =
     (Inl (Error ''mockApi[name] is not a function''), fresh_page)"
  by (simp add: mockApi_keys_def in_mockApi_def object_prototype_keys_def call_member_def
      sample_host_def plain_host_def sample_proto_call_def object_values_def split: sum.splits)

section \<open>Exceptions in the send/dispatch cycle\<close>

lemma finally_enables:
  "\<not> input_disabled (finally_block u) \<and> \<not> submit_disabled (finally_block u) \<and>
   input_focused (finally_block u)"
  by (simp add: finally_block_def)

lemma on_error_renders:
  "chat_history (finally_block (on_error e u)) =
     (if loading_element u then remove1 Spinner (chat_history u) else chat_history u)
     @ [Message ModelMessage (''Error: '' @ message e)] \<and>
   console_errors (finally_block (on_error e u)) = console_errors u @ [e] \<and>
   \<not> loading_element (finally_block (on_error e u))"
  by (simp add: finally_block_def on_error_def appendMessage_def loading_hide_def)

lemma submit_handler_cycle:
  "trim (input_value u) \<noteq> [] \<Longrightarrow>
   submit_handler h send c u =
     (case send_cycle h send c (trim (input_value u)) (before_try (trim (input_value u)) u) of
        None \<Rightarrow> None
      | Some (Inl e, c', u3) \<Rightarrow> Some (c', finally_block (on_error e u3))
      | Some (Inr r, c', u3) \<Rightarrow> Some (c', finally_block (on_reply r u3)))"
  by (simp add: submit_handler_def Let_def)

lemma getNodeStatus_throws:
  "to_string h v = Inl e \<Longrightarrow> call_member h ''getNodeStatus'' (v # vs) u = (Inl e, u)"
  by (auto simp: call_member_def param_def getNodeStatus_def)

text \<open>
  C4. When the send/dispatch cycle of a submitted message ends with an exception, the
  listener returns: the exception is logged to the console, the spinner is removed, the last
  message of the chat history is "Error: " followed by the exception's message, and the input
  field and the submit button are enabled. However the cycle ends, with a reply or with an
  exception, the listener returns with both controls enabled. The loop aborts at the first
  exception: a throwing first send, a batch of calls that ends with an exception and a
  throwing send of a batch each end the cycle at once with that exception, with no further
  send. A batch ends with the exception of the first call that throws, the calls after it not
  made: a call of a member that throws, such as getNodeStatus on a value that no method
  converts, or a call without an argument record; a call that returns is followed by the
  rest of the batch. A name that passes the test and is no fixture is answered by the host.
\<close>

theorem exception_rendered_controls_enabled:
  "(trim (input_value u) \<noteq> [] \<and>
    send_cycle h send c (trim (input_value u)) (before_try (trim (input_value u)) u) =
      Some (Inl e, c', u3) \<longrightarrow>
      submit_handler h send c u = Some (c', finally_block (on_error e u3)) \<and>
      last (chat_history (finally_block (on_error e u3))) =
        Message ModelMessage (''Error: '' @ message e) \<and>
      last (console_errors (finally_block (on_error e u3))) = e \<and>
      \<not> loading_element (finally_block (on_error e u3)) \<and>
      \<not> input_disabled (finally_block (on_error e u3)) \<and>
      \<not> submit_disabled (finally_block (on_error e u3))) \<and>
   (trim (input_value u) \<noteq> [] \<and>
    send_cycle h send c (trim (input_value u)) (before_try (trim (input_value u)) u) =
      Some (x, c', u3) \<longrightarrow>
      (\<exists>u'. submit_handler h send c u = Some (c', u') \<and>
            \<not> input_disabled u' \<and> \<not> submit_disabled u')) \<and>
   (trim (input_value u) \<noteq> [] \<and> submit_handler h send c u = Some (c', u') \<longrightarrow>
      \<not> input_disabled u' \<and> \<not> submit_disabled u') \<and>
   (send c (UserText m) = (Inl e, c') \<longrightarrow> send_cycle h send c m u = Some (Inl e, c', u)) \<and>
   (functionCalls r = Some calls \<and> calls \<noteq> [] \<and>
    dispatch_calls h calls [] u = (Inl e, u') \<longrightarrow>
      dispatch_loop h send c r u = Some (Inl e, c, u')) \<and>
   (functionCalls r = Some calls \<and> calls \<noteq> [] \<and>
    dispatch_calls h calls [] u = (Inr frs, u') \<and>
    send c (FunctionResponses frs) = (Inl e, c') \<longrightarrow>
      dispatch_loop h send c r u = Some (Inl e, c', u')) \<and>
   (name fc = Some n \<and> in_mockApi n \<and> args fc = Some a \<and>
    call_member h n (object_values a) u = (Inl e, u') \<longrightarrow>
      dispatch_calls h (fc # rest) acc u = (Inl e, u')) \<and>
   (name fc = Some n \<and> in_mockApi n \<and> args fc = None \<longrightarrow>
      dispatch_calls h (fc # rest) acc u = (Inl (values_error h), u)) \<and>
   (name fc = Some n \<and> in_mockApi n \<and> args fc = Some a \<and>
    call_member h n (object_values a) u = (Inr res, u') \<longrightarrow>
      dispatch_calls h (fc # rest) acc u =
        dispatch_calls h rest (acc @ [FunctionResponse n res]) u') \<and>
   (to_string h v = Inl e \<longrightarrow> call_member h ''getNodeStatus'' (v # vs) u = (Inl e, u)) \<and>
   (\<not> n \<in> set mockApi_keys \<longrightarrow> call_member h n vs u = (proto_call h n vs, u))"
proof (intro conjI impI; (elim conjE)?)
  assume t: "trim (input_value u) \<noteq> []"
    and sc: "send_cycle h send c (trim (input_value u)) (before_try (trim (input_value u)) u) =
      Some (Inl e, c', u3)"
  show "submit_handler h send c u = Some (c', finally_block (on_error e u3))"
    using submit_handler_cycle [OF t, of h send c] sc by simp
  show "last (chat_history (finally_block (on_error e u3))) =
        Message ModelMessage (''Error: '' @ message e)"
    and "last (console_errors (finally_block (on_error e u3))) = e"
    and "\<not> loading_element (finally_block (on_error e u3))"
    using on_error_renders [of e u3] by simp_all
  show "\<not> input_disabled (finally_block (on_error e u3))"
    and "\<not> submit_disabled (finally_block (on_error e u3))"
    using finally_enables by blast+
next
  assume t: "trim (input_value u) \<noteq> []"
    and sc: "send_cycle h send c (trim (input_value u)) (before_try (trim (input_value u)) u) =
      Some (x, c', u3)"
  show "\<exists>u'. submit_handler h send c u = Some (c', u') \<and>
            \<not> input_disabled u' \<and> \<not> submit_disabled u'"
    using submit_handler_cycle [OF t, of h send c] sc finally_enables
    by (cases x) simp_all
next
  assume t: "trim (input_value u) \<noteq> []" and sh: "submit_handler h send c u = Some (c', u')"
  from sh show "\<not> input_disabled u'" and "\<not> submit_disabled u'"
    unfolding submit_handler_cycle [OF t]
    using finally_enables by (auto split: option.splits sum.splits)
next
  assume "send c (UserText m) = (Inl e, c')"
  then show "send_cycle h send c m u = Some (Inl e, c', u)"
    by (simp add: send_cycle_def)
next
  assume "functionCalls r = Some calls" "calls \<noteq> []" "dispatch_calls h calls [] u = (Inl e, u')"
  then show "dispatch_loop h send c r u = Some (Inl e, c, u')"
    by (simp add: dispatch_loop_calls)
next
  assume "functionCalls r = Some calls" "calls \<noteq> []"
    "dispatch_calls h calls [] u = (Inr frs, u')" "send c (FunctionResponses frs) = (Inl e, c')"
  then show "dispatch_loop h send c r u = Some (Inl e, c', u')"
    by (simp add: dispatch_loop_calls)
next
  assume "name fc = Some n" "in_mockApi n" "args fc = Some a"
    "call_member h n (object_values a) u = (Inl e, u')"
  then show "dispatch_calls h (fc # rest) acc u = (Inl e, u')"
    by (rule dispatch_call_throws)
next
  assume "name fc = Some n" "in_mockApi n" "args fc = None"
  then show "dispatch_calls h (fc # rest) acc u = (Inl (values_error h), u)"
    by (rule dispatch_call_without_arguments)
next
  assume "name fc = Some n" "in_mockApi n" "args fc = Some a"
    "call_member h n (object_values a) u = (Inr res, u')"
  then show "dispatch_calls h (fc # rest) acc u =
        dispatch_calls h rest (acc @ [FunctionResponse n res]) u'"
    by (rule dispatch_call_returns)
next
  assume "to_string h v = Inl e"
  then show "call_member h ''getNodeStatus'' (v # vs) u = (Inl e, u)"
    by (rule getNodeStatus_throws)
next
  assume "\<not> n \<in> set mockApi_keys"
  then show "call_member h n vs u = (proto_call h n vs, u)"
    by (simp add: call_member_def mockApi_keys_def)
qed

lemma trim_asking: "trim (input_value asking_page) = ''score?''"
  by (simp add: asking_page_def trim_def white_space_def)

lemma failing_cycle:
  "send_cycle sample_host failing_send 0 ''score?'' (before_try ''score?'' asking_page) =
     Some (Inl (Error ''network down''), 2, before_try ''score?'' asking_page)"
proof -
  let ?r = "\<lparr>text_part = None, functionCalls = Some [score_call]\<rparr>"
  have d: "dispatch_calls sample_host [score_call] []
      (before_try ''score?'' asking_page) =
      (Inr [FunctionResponse ''getSystemComplianceScore''
              (Value (JStr getSystemComplianceScore))],
       before_try ''score?'' asking_page)"
    by (simp add: score_call_def in_mockApi_def mockApi_keys_def call_member_def)
  have "dispatch_loop sample_host failing_send 1 ?r (before_try ''score?'' asking_page) =
      Some (Inl (Error ''network down''), 2, before_try ''score?'' asking_page)"
    using dispatch_loop_calls [of ?r "[score_call]"
        sample_host failing_send 1 "before_try ''score?'' asking_page"]
    unfolding d by (simp add: failing_send_def)
  then show ?thesis by (simp add: send_cycle_def failing_send_def)
qed

lemma odd_cycle:
  "send_cycle sample_host odd_send 0 ''score?'' (before_try ''score?'' asking_page) =
     Some (Inl (Error ''Cannot convert object to primitive value''), 1,
           before_try ''score?'' asking_page)"
proof -
  let ?u = "before_try ''score?'' asking_page"
  let ?r = "\<lparr>text_part = None, functionCalls = Some [score_call, odd_status_call]\<rparr>"
  have i: "in_mockApi ''getSystemComplianceScore''" "in_mockApi ''getNodeStatus''"
    by (simp_all add: in_mockApi_def mockApi_keys_def)
  have c1: "call_member sample_host ''getSystemComplianceScore'' [] ?u =
      (Inr (Value (JStr getSystemComplianceScore)), ?u)"
    by (simp add: call_member_def)
  have c2: "call_member sample_host ''getNodeStatus'' [odd_object] ?u =
      (Inl (Error ''Cannot convert object to primitive value''), ?u)"
    using getNodeStatus_throws [OF sample_odd_conversion] by simp
  have d: "dispatch_calls sample_host [score_call, odd_status_call] [] ?u =
      (Inl (Error ''Cannot convert object to primitive value''), ?u)"
    by (simp add: score_call_def odd_status_call_def i object_values_def c1 c2)
  have "dispatch_loop sample_host odd_send 1 ?r ?u =
      Some (Inl (Error ''Cannot convert object to primitive value''), 1, ?u)"
    using dispatch_loop_calls [of ?r "[score_call, odd_status_call]" sample_host odd_send 1 ?u]
    unfolding d by simp
  then show ?thesis by (simp add: send_cycle_def odd_send_def)
qed

theorem exception_rendered_controls_enabled_witness:
  "trim (input_value asking_page) = ''score?'' \<and>
   send_cycle sample_host odd_send 0 ''score?'' (before_try ''score?'' asking_page) =
     Some (Inl (Error ''Cannot convert object to primitive value''), 1,
           before_try ''score?'' asking_page) \<and>
   submit_handler sample_host odd_send 0 asking_page =
     Some (1, fresh_page
       \<lparr>chat_history :=
          [Message UserMessage ''score?'',
           Message ModelMessage ''Error: Cannot convert object to primitive value''],
        input_focused := True,
        console_errors := [Error ''Cannot convert object to primitive value'']\<rparr>) \<and>
   send_cycle sample_host failing_send 0 ''score?'' (before_try ''score?'' asking_page) =
     Some (Inl (Error ''network down''), 2, before_try ''score?'' asking_page) \<and>
   submit_handler sample_host failing_send 0 asking_page =
     Some (2, fresh_page
       \<lparr>chat_history := [Message UserMessage ''score?'', Message ModelMessage ''Error: network down''],
        input_focused := True, console_errors := [Error ''network down'']\<rparr>)"
proof -
  have t: "trim (input_value asking_page) \<noteq> []" by (simp add: trim_asking)
  have r: "\<And>e. finally_block (on_error e (before_try ''score?'' asking_page)) =
      fresh_page
       \<lparr>chat_history := [Message UserMessage ''score?'', Message ModelMessage (''Error: '' @ message e)],
        input_focused := True, console_errors := [e]\<rparr>"
    by (simp add: finally_block_def on_error_def before_try_def asking_page_def fresh_page_def
        appendMessage_def loading_show_def loading_hide_def)
  have a: "submit_handler sample_host odd_send 0 asking_page =
      Some (1, finally_block (on_error (Error ''Cannot convert object to primitive value'')
                 (before_try ''score?'' asking_page)))"
    using exception_rendered_controls_enabled [THEN conjunct1, THEN mp,
        of asking_page sample_host odd_send 0
        "Error ''Cannot convert object to primitive value''" 1
        "before_try ''score?'' asking_page"] t odd_cycle
    by (simp add: trim_asking)
  have b: "submit_handler sample_host failing_send 0 asking_page =
      Some (2, finally_block (on_error (Error ''network down'')
                 (before_try ''score?'' asking_page)))"
    using exception_rendered_controls_enabled [THEN conjunct1, THEN mp,
        of asking_page sample_host failing_send 0 "Error ''network down''" 2
        "before_try ''score?'' asking_page"] t failing_cycle
    by (simp add: trim_asking)
  from a b show ?thesis
    by (simp add: r trim_asking odd_cycle failing_cycle)
qed

section \<open>A whole cycle\<close>

lemma sample_submit_stages_deployment:
  "submit_handler sample_host sample_send 0 asking_page =
     Some (2, staged_page
       \<lparr>chat_history := [Message UserMessage ''score?'', Message ModelMessage ''Deployment staged.''],
        input_focused := True\<rparr>)"
proof -
  let ?u = "before_try ''score?'' asking_page"
  let ?r = "\<lparr>text_part = None, functionCalls = Some [status_call, deploy_call]\<rparr>"
  let ?u' = "snd (startDeployment sample_host (JStr ''2.0.0 G-Sync'') (JStr ''ana-agi-node-1'') ?u)"
  have i: "in_mockApi ''getNodeStatus''" "in_mockApi ''startDeployment''"
    by (simp_all add: in_mockApi_def mockApi_keys_def)
  have c1: "\<exists>s. call_member sample_host ''getNodeStatus'' [JStr ''ana-agi-node-1''] ?u =
      (Inr (Value (JStr s)), ?u)"
    by (simp add: call_member_def param_def getNodeStatus_def known_node_def)
  have c2: "call_member sample_host ''startDeployment''
      [JStr ''2.0.0 G-Sync'', JStr ''ana-agi-node-1''] ?u =
      (Inr (Value (JStr ''Please confirm the deployment in the dialog box.'')), ?u')"
    by (simp add: call_member_def param_def startDeployment_def)
  from c1 obtain s where c1': "call_member sample_host ''getNodeStatus''
      [JStr ''ana-agi-node-1''] ?u = (Inr (Value (JStr s)), ?u)" by blast
  have d: "\<exists>frs. length frs = 2 \<and>
      dispatch_calls sample_host [status_call, deploy_call] [] ?u = (Inr frs, ?u')"
    by (simp add: status_call_def deploy_call_def i object_values_def c1' c2)
  then obtain frs where f: "length frs = 2"
    "dispatch_calls sample_host [status_call, deploy_call] [] ?u = (Inr frs, ?u')" by blast
  have "dispatch_loop sample_host sample_send 1 ?r ?u =
      Some (Inr \<lparr>text_part = Some ''Deployment staged.'', functionCalls = None\<rparr>, 2, ?u')"
    using dispatch_loop_calls [of ?r "[status_call, deploy_call]" sample_host sample_send 1 ?u]
    unfolding f(2) using f(1) by (simp add: sample_send_def dispatch_loop_done)
  then have "send_cycle sample_host sample_send 0 ''score?'' ?u =
      Some (Inr \<lparr>text_part = Some ''Deployment staged.'', functionCalls = None\<rparr>, 2, ?u')"
    by (simp add: send_cycle_def sample_send_def)
  then have "submit_handler sample_host sample_send 0 asking_page =
      Some (2, finally_block
        (on_reply \<lparr>text_part = Some ''Deployment staged.'', functionCalls = None\<rparr> ?u'))"
    by (simp add: submit_handler_def trim_asking)
  moreover have "finally_block
        (on_reply \<lparr>text_part = Some ''Deployment staged.'', functionCalls = None\<rparr> ?u') =
      staged_page
       \<lparr>chat_history := [Message UserMessage ''score?'', Message ModelMessage ''Deployment staged.''],
        input_focused := True\<rparr>"
    by (simp add: finally_block_def on_reply_def before_try_def asking_page_def fresh_page_def
        staged_page_def startDeployment_def appendMessage_def loading_show_def loading_hide_def)
  ultimately show ?thesis by simp
qed

end
